theory Spec2Isabelle
  imports Main "HOL-Library.Word"
begin

unbundle bit_operations_syntax

section \<open>Go standard library: the parts of net, bytes and time the code calls\<close>

text \<open>
  A Go byte slice is a list of bytes; the nil slice and the empty slice are both \<open>[]\<close>
  (\<open>bytes.Equal\<close> and \<open>len\<close> do not tell them apart). \<open>net.IP\<close> and
  \<open>net.HardwareAddr\<close> are byte slices. \<open>bytes.Equal\<close> is list equality.
\<close>

type_synonym bytes = "8 word list"
type_synonym IP = "8 word list"

text \<open>\<open>net.IPv4(a, b, c, d)\<close> builds the 16-byte form with the v4-in-v6 prefix.\<close>

definition v4InV6Prefix :: bytes where
  "v4InV6Prefix = [0, 0, 0, 0, 0, 0, 0, 0, 0, 0, 0xff, 0xff]"

definition IPv4 :: "8 word \<Rightarrow> 8 word \<Rightarrow> 8 word \<Rightarrow> 8 word \<Rightarrow> IP" where
  "IPv4 a b c d = v4InV6Prefix @ [a, b, c, d]"

definition IPv4zero :: IP where
  "IPv4zero = IPv4 0 0 0 0"

definition IPv4bcast :: IP where
  "IPv4bcast = IPv4 255 255 255 255"

text \<open>\<open>ip.To4()\<close>: the 4-byte form, or nil (\<open>[]\<close>) when ip is not an IPv4 address.\<close>

definition To4 :: "IP \<Rightarrow> IP" where
  "To4 ip =
     (if length ip = 4 then ip
      else if length ip = 16 \<and> list_all (\<lambda>b. b = 0) (take 10 ip) \<and> ip ! 10 = 0xff \<and> ip ! 11 = 0xff
      then drop 12 ip
      else [])"

text \<open>\<open>ip.Equal(x)\<close>: an IPv4 address and its 16-byte form are equal.\<close>

definition IP_Equal :: "IP \<Rightarrow> IP \<Rightarrow> bool" where
  "IP_Equal ip x =
     (if length ip = length x then ip = x
      else if length ip = 4 \<and> length x = 16 then take 12 x = v4InV6Prefix \<and> ip = drop 12 x
      else if length ip = 16 \<and> length x = 4 then take 12 ip = v4InV6Prefix \<and> drop 12 ip = x
      else False)"

definition IsLinkLocalUnicast :: "IP \<Rightarrow> bool" where
  "IsLinkLocalUnicast ip =
     (if To4 ip \<noteq> [] then To4 ip ! 0 = 169 \<and> To4 ip ! 1 = 254
      else length ip = 16 \<and> ip ! 0 = 0xfe \<and> (ip ! 1) AND 0xc0 = 0x80)"

definition IsLinkLocalMulticast :: "IP \<Rightarrow> bool" where
  "IsLinkLocalMulticast ip =
     (if To4 ip \<noteq> [] then To4 ip ! 0 = 224 \<and> To4 ip ! 1 = 0 \<and> To4 ip ! 2 = 0
      else length ip = 16 \<and> ip ! 0 = 0xff \<and> (ip ! 1) AND 0x0f = 0x02)"

text \<open>
  \<open>time.Time\<close> is a count of nanoseconds and \<open>time.Duration\<close> a number of
  nanoseconds; \<open>t.Before(u)\<close> is \<open>t < u\<close> and \<open>t.Add(d)\<close> is \<open>t + d\<close>.
\<close>

type_synonym Time = int
type_synonym Duration = int

definition Second :: Duration where
  "Second = 1000000000"

definition Minute :: Duration where
  "Minute = 60 * Second"

definition Hour :: Duration where
  "Hour = 60 * Minute"

section \<open>Package packet: the session and its host table\<close>

record Addr =
  MAC :: bytes
  IP :: IP
  Port :: nat

record NICInfo =
  HostAddr4 :: Addr
  RouterAddr4 :: Addr
  HostLLA_IP :: IP

text \<open>
  The table is an arena: a \<open>*MACEntry\<close> is an index into \<open>MACTable\<close>, a
  \<open>*Host\<close> an index into \<open>HostTable\<close>. A host's back reference
  \<open>host.MACEntry\<close> and an entry's \<open>HostList\<close> hold such indices, so a write through
  one reference is seen through every other.
\<close>

record MACEntry =
  MACEntry_MAC :: bytes
  Captured :: bool
  IsRouter :: bool
  MACEntry_Online :: bool
  IP4Offer :: IP
  HostList :: "nat list"

record Host =
  Host_Addr :: Addr
  Host_MACEntry :: nat
  Online :: bool
  LastSeen :: Time

record Session =
  NICInfo :: NICInfo
  ProbeDeadline :: Duration
  OfflineDeadline :: Duration
  PurgeDeadline :: Duration
  HostTable :: "Host list"
  MACTable :: "MACEntry list"

record Config =
  Config_NICInfo :: "NICInfo option"
  Config_ProbeDeadline :: Duration
  Config_OfflineDeadline :: Duration
  Config_PurgeDeadline :: Duration

datatype error =
  ErrInvalidParam string
  | ErrIsRouter
  | ErrInvalidIP
  | ErrParseMessage
  | NilDereference

subsection \<open>Table helpers that are not among the source files\<close>

text \<open>
  Modelled from the spec: \<open>MACTable.findMAC\<close>, which section 4.2 gives as
  \<open>find_mac(mac) \<rightarrow> MACEntry?\<close>, a lookup by MAC. It returns the entry's index.
\<close>

fun findMAC :: "MACEntry list \<Rightarrow> bytes \<Rightarrow> nat option" where
  "findMAC [] mac = None"
| "findMAC (e # es) mac =
     (if MACEntry_MAC e = mac then Some 0 else map_option Suc (findMAC es mac))"

text \<open>
  Modelled from the spec: \<open>MACTable.findOrCreate\<close>, which "creates or reuses the MACEntry"
  (section 4.2): the entry found by \<open>findMAC\<close>, or a new entry with Go's zero values
  appended to the table.
\<close>

definition newMACEntry :: "bytes \<Rightarrow> MACEntry" where
  "newMACEntry mac =
     \<lparr>MACEntry_MAC = mac, Captured = False, IsRouter = False, MACEntry_Online = False,
      IP4Offer = [], HostList = []\<rparr>"

definition MACTable_findOrCreate :: "MACEntry list \<Rightarrow> bytes \<Rightarrow> nat \<times> MACEntry list" where
  "MACTable_findOrCreate t mac =
     (case findMAC t mac of
        Some i \<Rightarrow> (i, t)
      | None \<Rightarrow> (length t, t @ [newMACEntry mac]))"

text \<open>
  Modelled from the spec: \<open>findOrCreateHostWithLock\<close>, section 4.2's
  \<open>find_or_create(mac, ip)\<close>: it "returns an existing Host if the pair is already known,
  otherwise creates or reuses the MACEntry and adds a new Host. If ip is all-zeros, no Host
  is created; only the MACEntry is returned". The spec does not say what \<open>LastSeen\<close> a
  new host starts with: it is the parameter \<open>stamp\<close>. A new host starts offline.
\<close>

fun findHost :: "Host list \<Rightarrow> Addr \<Rightarrow> nat option" where
  "findHost [] a = None"
| "findHost (h # hs) a =
     (if MAC (Host_Addr h) = MAC a \<and> IP (Host_Addr h) = IP a then Some 0
      else map_option Suc (findHost hs a))"

definition findOrCreateHostWithLock :: "Time \<Rightarrow> Session \<Rightarrow> Addr \<Rightarrow> nat option \<times> Session" where
  "findOrCreateHostWithLock stamp s a =
     (if list_all (\<lambda>b. b = 0) (IP a)
      then (None, s\<lparr>MACTable := snd (MACTable_findOrCreate (MACTable s) (MAC a))\<rparr>)
      else
        (case findHost (HostTable s) a of
           Some i \<Rightarrow> (Some i, s)
         | None \<Rightarrow>
             (let (m, mt) = MACTable_findOrCreate (MACTable s) (MAC a);
                  i = length (HostTable s);
                  host = \<lparr>Host_Addr = \<lparr>MAC = MAC a, IP = IP a, Port = 0\<rparr>, Host_MACEntry = m,
                          Online = False, LastSeen = stamp\<rparr>
              in (Some i,
                  s\<lparr>HostTable := HostTable s @ [host],
                    MACTable := mt[m := (mt ! m)\<lparr>HostList := HostList (mt ! m) @ [i]\<rparr>]\<rparr>))))"

subsection \<open>Writes through a host or entry reference\<close>

definition updHost :: "nat \<Rightarrow> (Host \<Rightarrow> Host) \<Rightarrow> Session \<Rightarrow> Session" where
  "updHost i f s = s\<lparr>HostTable := (HostTable s)[i := f (HostTable s ! i)]\<rparr>"

definition updMACEntry :: "nat \<Rightarrow> (MACEntry \<Rightarrow> MACEntry) \<Rightarrow> Session \<Rightarrow> Session" where
  "updMACEntry m f s = s\<lparr>MACTable := (MACTable s)[m := f (MACTable s ! m)]\<rparr>"

subsection \<open>Config.NewSession\<close>

text \<open>
  The three deadline checks in the source's order, then the two table entries made by
  hand. \<open>now\<close> is the \<open>time.Now()\<close> of the host entry's pin, \<open>stamp\<close> the
  \<open>LastSeen\<close> the table gives a new host. A nil \<open>config.NICInfo\<close>, or a nil host
  returned for an all-zeros address, is dereferenced by the source: the model returns
  \<open>NilDereference\<close>. The statistics table, the notification channel, the connection and
  the two goroutines started here hold no table state and are left out.
\<close>

definition NewSession :: "Time \<Rightarrow> Time \<Rightarrow> Config \<Rightarrow> error + Session" where
  "NewSession stamp now config =
     (if Config_ProbeDeadline config < 0 \<or> Config_ProbeDeadline config > Minute * 30
      then Inl (ErrInvalidParam ''invalid ProbeDeadline'')
      else if Config_OfflineDeadline config < 0 \<or> Config_OfflineDeadline config > Minute * 60
              \<or> Config_OfflineDeadline config < Config_ProbeDeadline config
      then Inl (ErrInvalidParam ''invalid OfflineDeadline'')
      else if Config_PurgeDeadline config < 0 \<or> Config_PurgeDeadline config > Hour * 24
      then Inl (ErrInvalidParam ''invalid PurgeDeadline'')
      else
        (case Config_NICInfo config of
           None \<Rightarrow> Inl NilDereference
         | Some nic \<Rightarrow>
             (let session = \<lparr>NICInfo = nic,
                             ProbeDeadline = Config_ProbeDeadline config,
                             OfflineDeadline = Config_OfflineDeadline config,
                             PurgeDeadline = Config_PurgeDeadline config,
                             HostTable = [], MACTable = []\<rparr>
              in case findOrCreateHostWithLock stamp session (HostAddr4 nic) of
                   (None, _) \<Rightarrow> Inl NilDereference
                 | (Some i, s1) \<Rightarrow>
                     (let s2 = updHost i (\<lambda>h. h\<lparr>LastSeen := now + Hour * 24 * 365\<rparr>) s1;
                          s3 = updHost i (\<lambda>h. h\<lparr>Online := True\<rparr>) s2;
                          s4 = updMACEntry (Host_MACEntry (HostTable s3 ! i))
                                 (\<lambda>e. e\<lparr>MACEntry_Online := True\<rparr>) s3
                      in case findOrCreateHostWithLock stamp s4 (RouterAddr4 nic) of
                           (None, _) \<Rightarrow> Inl NilDereference
                         | (Some j, s5) \<Rightarrow>
                             (let s6 = updMACEntry (Host_MACEntry (HostTable s5 ! j))
                                         (\<lambda>e. e\<lparr>IsRouter := True\<rparr>) s5;
                                  s7 = updHost j (\<lambda>h. h\<lparr>Online := True\<rparr>) s6;
                                  s8 = updMACEntry (Host_MACEntry (HostTable s7 ! j))
                                         (\<lambda>e. e\<lparr>MACEntry_Online := True\<rparr>) s7
                              in Inr s8)))))"

definition isInvalidParam :: "error + Session \<Rightarrow> bool" where
  "isInvalidParam r = (case r of Inl (ErrInvalidParam _) \<Rightarrow> True | _ \<Rightarrow> False)"

subsection \<open>Session.purge\<close>

record Notification =
  Notification_Addr :: Addr
  Notification_Online :: bool

text \<open>
  Modelled from the spec: \<open>toNotification\<close>, which is not among the source files; the
  spec gives a notification as \<open>{Addr, Online, DHCP4Name, MDNSName}\<close>. The names are
  left out.
\<close>

definition toNotification :: "Host \<Rightarrow> Notification" where
  "toNotification host =
     \<lparr>Notification_Addr = Host_Addr host, Notification_Online = Online host\<rparr>"

text \<open>
  \<open>notifyOffline\<close>: the entry's \<open>Online\<close> becomes "some owned host is online"; the
  notification is returned in place of the channel send.
\<close>

definition notifyOffline :: "Session \<Rightarrow> nat \<Rightarrow> Session \<times> Notification" where
  "notifyOffline h i =
     (let host = HostTable h ! i;
          notification = toNotification host;
          m = Host_MACEntry host;
          macOnline = list_ex (\<lambda>j. Online (HostTable h ! j)) (HostList (MACTable h ! m))
      in (updMACEntry m (\<lambda>e. e\<lparr>MACEntry_Online := macOnline\<rparr>) h, notification))"

text \<open>
  The body of the loop over the table: the lists \<open>purge\<close>, \<open>probe\<close> and
  \<open>offline\<close> after one host \<open>e\<close>, found at index \<open>i\<close>. Durations are
  unbounded integers here; Go's \<open>int64\<close> product \<open>h.ProbeDeadline * -1\<close> differs
  only at the least \<open>int64\<close>, which the bounds checked by \<open>NewSession\<close> exclude.
\<close>

definition purge_entry ::
  "Time \<Rightarrow> Session \<Rightarrow> IP list \<times> Addr list \<times> nat list \<Rightarrow> nat \<times> Host
     \<Rightarrow> IP list \<times> Addr list \<times> nat list" where
  "purge_entry now h acc ie =
     (let probeCutoff = now + ProbeDeadline h * -1;
          offlineCutoff = now + OfflineDeadline h * -1;
          deleteCutoff = now + PurgeDeadline h * -1;
          (purge, probe, offline) = acc;
          (i, e) = ie
      in if \<not> Online e \<and> LastSeen e < deleteCutoff
         then (purge @ [IP (Host_Addr e)], probe, offline)
         else (purge,
               (if Online e \<and> LastSeen e < probeCutoff then probe @ [Host_Addr e] else probe),
               (if Online e \<and> LastSeen e < offlineCutoff then offline @ [i] else offline)))"

text \<open>
  Modelled from the spec: \<open>GetHosts\<close>, not among the source files, returns the hosts of
  the table; the loop visits them in table order.
\<close>

definition purge_scan :: "Time \<Rightarrow> Session \<Rightarrow> IP list \<times> Addr list \<times> nat list" where
  "purge_scan now h = foldl (purge_entry now h) ([], [], []) (enumerate 0 (HostTable h))"

datatype Probe =
  ARPRequest IP
  | ICMP6SendNeighbourSolicitation Addr Addr IP
  | ICMP6SendEchoRequest Addr Addr "16 word" "16 word"

text \<open>
  Modelled from the spec: \<open>IPv6SolicitedNode\<close>, not among the source files, "the
  solicited-node multicast of the target": \<open>ff02::1:ffXX:XXXX\<close> with the target's low 24
  bits, at the Ethernet multicast address \<open>33:33:ff:XX:XX:XX\<close>.
\<close>

definition IPv6SolicitedNode :: "IP \<Rightarrow> Addr" where
  "IPv6SolicitedNode ip =
     \<lparr>MAC = [0x33, 0x33, 0xff, ip ! 13, ip ! 14, ip ! 15],
      IP = [0xff, 0x02, 0, 0, 0, 0, 0, 0, 0, 0, 0, 0x01, 0xff, ip ! 13, ip ! 14, ip ! 15],
      Port = 0\<rparr>"

text \<open>
  The goroutine that probes: the list of sends it makes, in order. \<open>continue\<close> goes on
  with the rest of the list, \<open>return\<close> ends the goroutine. A send that fails is logged
  and the loop goes on, so the list holds every send attempted. \<open>To4 \<noteq> []\<close> is the
  source's \<open>addr.IP.To4() != nil\<close> and \<open>HostLLA_IP \<noteq> []\<close> its
  \<open>h.NICInfo.HostLLA.IP != nil\<close>.
\<close>

fun probe_goroutine :: "Session \<Rightarrow> Time \<Rightarrow> Addr list \<Rightarrow> Probe list" where
  "probe_goroutine h now [] = []"
| "probe_goroutine h now (addr # rest) =
     (if To4 (IP addr) \<noteq> [] then ARPRequest (IP addr) # probe_goroutine h now rest
      else if HostLLA_IP (NICInfo h) \<noteq> [] then probe_goroutine h now rest
      else
        (let srcAddr = \<lparr>MAC = MAC (HostAddr4 (NICInfo h)), IP = HostLLA_IP (NICInfo h), Port = 0\<rparr>
         in if IsLinkLocalUnicast (IP addr)
            then [ICMP6SendNeighbourSolicitation srcAddr (IPv6SolicitedNode (IP addr)) (IP addr)]
            else ICMP6SendEchoRequest srcAddr addr (word_of_int (now mod Second)) 0
                   # probe_goroutine h now rest))"

fun notifyOffline_all :: "Session \<Rightarrow> nat list \<Rightarrow> Session \<times> Notification list" where
  "notifyOffline_all h [] = (h, [])"
| "notifyOffline_all h (i # rest) =
     (let (h1, n) = notifyOffline h i;
          (h2, ns) = notifyOffline_all h1 rest
      in (h2, n # ns))"

text \<open>
  One purge pass. \<open>deleteHost\<close> is not among the source files: the addresses it is called
  with are returned as \<open>deleted\<close>, and the session returned is the one before the
  deletions.
\<close>

record PurgeOutcome =
  session_after :: Session
  probes :: "Probe list"
  notifications :: "Notification list"
  deleted :: "IP list"

definition purge :: "Session \<Rightarrow> Time \<Rightarrow> PurgeOutcome" where
  "purge h now =
     (let (purge, probe, offline) = purge_scan now h;
          sent = (if length probe > 0 then probe_goroutine h now probe else []);
          (h1, ns) = notifyOffline_all h offline
      in \<lparr>session_after = h1, probes = sent, notifications = ns, deleted = purge\<rparr>)"

subsection \<open>Session.Capture\<close>

definition Capture :: "Session \<Rightarrow> bytes \<Rightarrow> error option \<times> Session" where
  "Capture h mac =
     (let (macEntry, t) = MACTable_findOrCreate (MACTable h) mac;
          h1 = h\<lparr>MACTable := t\<rparr>
      in if Captured (MACTable h1 ! macEntry) then (None, h1)
         else if IsRouter (MACTable h1 ! macEntry) then (Some ErrIsRouter, h1)
         else (None, updMACEntry macEntry (\<lambda>e. e\<lparr>Captured := True\<rparr>) h1))"

definition IsCaptured :: "Session \<Rightarrow> bytes \<Rightarrow> bool" where
  "IsCaptured h mac =
     (case findMAC (MACTable h) mac of
        Some e \<Rightarrow> Captured (MACTable h ! e)
      | None \<Rightarrow> False)"

subsection \<open>Addresses of the repository's test context\<close>

definition hostMAC :: bytes where
  "hostMAC = [0x00, 0x55, 0x55, 0x55, 0x55, 0x55]"

definition hostIP4 :: IP where
  "hostIP4 = To4 (IPv4 192 168 0 129)"

definition routerMAC :: bytes where
  "routerMAC = [0x00, 0x66, 0x66, 0x66, 0x66, 0x66]"

definition routerIP4 :: IP where
  "routerIP4 = To4 (IPv4 192 168 0 11)"

definition mac1 :: bytes where
  "mac1 = [0x00, 0x02, 0x03, 0x04, 0x05, 0x01]"

definition mac2 :: bytes where
  "mac2 = [0x00, 0x02, 0x03, 0x04, 0x05, 0x02]"

definition ip6LLAHost :: IP where
  "ip6LLAHost = [0xfe, 0x80, 0, 0, 0, 0, 0, 0, 0, 0, 0, 0, 0, 0, 0x10, 0x10]"

definition ip6LLA2 :: IP where
  "ip6LLA2 = [0xfe, 0x80, 0, 0, 0, 0, 0, 0, 0, 0, 0, 0, 0, 0, 0, 0x02]"

definition hostAddr :: Addr where
  "hostAddr = \<lparr>MAC = hostMAC, IP = hostIP4, Port = 0\<rparr>"

definition routerAddr :: Addr where
  "routerAddr = \<lparr>MAC = routerMAC, IP = routerIP4, Port = 0\<rparr>"

definition testNICInfo :: NICInfo where
  "testNICInfo = \<lparr>HostAddr4 = hostAddr, RouterAddr4 = routerAddr, HostLLA_IP = ip6LLAHost\<rparr>"

section \<open>Package dhcp4: the REQUEST handler\<close>

datatype Operation = rebinding | selecting | renewing | rebooting

datatype Mode = ModePrimaryServer | ModeSecondaryServer | ModeSecondaryServerNice

text \<open>
  Modelled from the spec: the lease states and the hunt stages, whose declarations are not
  among the source files (\<open>State \<in> {Free, Discover, Allocated}\<close>,
  \<open>HuntStage \<in> {Normal, Hunt, Redirected, NoChange}\<close>). \<open>StageNoChange\<close> is taken as
  the zero value of a \<open>Result\<close>.
\<close>

datatype State = StateFree | StateDiscover | StateAllocated

datatype HuntStage = StageNoChange | StageNormal | StageHunt | StageRedirected

text \<open>
  Modelled from the spec: the option codes (section 6) and the message types of RFC 2131,
  whose declarations are not among the source files.
\<close>

type_synonym Options = "8 word \<rightharpoonup> bytes"

definition OptionHostName :: "8 word" where
  "OptionHostName = 12"

definition OptionRequestedIPAddress :: "8 word" where
  "OptionRequestedIPAddress = 50"

definition OptionDHCPMessageType :: "8 word" where
  "OptionDHCPMessageType = 53"

definition OptionServerIdentifier :: "8 word" where
  "OptionServerIdentifier = 54"

definition OptionParameterRequestList :: "8 word" where
  "OptionParameterRequestList = 55"

definition OptionClientIdentifier :: "8 word" where
  "OptionClientIdentifier = 61"

type_synonym MessageType = "8 word"

definition Discover :: MessageType where
  "Discover = 1"

definition Offer :: MessageType where
  "Offer = 2"

definition Request :: MessageType where
  "Request = 3"

definition Decline :: MessageType where
  "Decline = 4"

definition ACK :: MessageType where
  "ACK = 5"

definition NAK :: MessageType where
  "NAK = 6"

definition Release :: MessageType where
  "Release = 7"

definition Inform :: MessageType where
  "Inform = 8"

text \<open>\<open>options[code]\<close>: a Go map read, nil for a missing key.\<close>

definition option_value :: "Options \<Rightarrow> 8 word \<Rightarrow> bytes" where
  "option_value options code = (case options code of Some v \<Rightarrow> v | None \<Rightarrow> [])"

text \<open>
  The request frame, by the accessors the handler calls (\<open>p.XId()\<close>, \<open>p.CIAddr()\<close>,
  \<open>p.CHAddr()\<close>, \<open>p.Broadcast()\<close>); the byte layout behind them is not among the
  source files.
\<close>

record DHCP4 =
  XId :: bytes
  CIAddr :: IP
  CHAddr :: bytes
  Broadcast :: bool

text \<open>
  A reply frame is the call of \<open>ReplyPacket\<close> that builds it: the request, the message
  type, the server identifier, yiaddr, the lease time and the options.
\<close>

datatype Reply = ReplyPacket DHCP4 MessageType IP IP Duration "(8 word \<times> bytes) list"

record IPNet =
  IPNet_IP :: IP
  Mask :: bytes

text \<open>\<open>net.IPNet.Contains\<close> with its helper \<open>networkNumberAndMask\<close>.\<close>

definition networkNumberAndMask :: "IPNet \<Rightarrow> IP \<times> bytes" where
  "networkNumberAndMask n =
     (let ip = (if To4 (IPNet_IP n) \<noteq> [] then To4 (IPNet_IP n) else IPNet_IP n);
          m = Mask n
      in if To4 (IPNet_IP n) = [] \<and> length ip \<noteq> 16 then ([], [])
         else if length m = 4 then (if length ip \<noteq> 4 then ([], []) else (ip, m))
         else if length m = 16 then (if length ip = 4 then (ip, drop 12 m) else (ip, m))
         else ([], []))"

definition Contains :: "IPNet \<Rightarrow> IP \<Rightarrow> bool" where
  "Contains n ip0 =
     (let (nn, m) = networkNumberAndMask n;
          ip = (if To4 ip0 \<noteq> [] then To4 ip0 else ip0)
      in length ip = length nn
         \<and> list_all (\<lambda>i. (nn ! i) AND (m ! i) = (ip ! i) AND (m ! i)) [0..<length ip])"

record dhcpSubnet =
  LAN :: IPNet
  DefaultGW :: IP
  DHCPServer :: IP
  DNSServer :: IP
  Duration :: Duration
  FirstIP :: IP
  LastIP :: IP
  Stage :: HuntStage
  subnet_options :: Options

record Lease =
  ClientID :: bytes
  Lease_Addr :: Addr
  XID :: bytes
  State :: State
  IPOffer :: IP
  DHCPExpiry :: Time
  Count :: nat
  Name :: bytes
  subnet :: dhcpSubnet

text \<open>
  The lease table \<open>map[string]*Lease\<close>: the map from client id to a lease reference, and
  the lease objects by reference. A write through a \<open>*Lease\<close> is a write to
  \<open>objects\<close> at that reference.
\<close>

record leaseTable =
  index :: "bytes \<rightharpoonup> nat"
  objects :: "nat \<Rightarrow> Lease"

record Handler =
  session :: Session
  mode :: Mode
  table :: leaseTable
  net1 :: dhcpSubnet
  net2 :: dhcpSubnet

record Result =
  Update :: bool
  Result_IsRouter :: bool
  FrameAddr :: Addr
  NameEntry_Name :: bytes
  Result_HuntStage :: HuntStage

definition Result_zero :: Result where
  "Result_zero =
     \<lparr>Update = False, Result_IsRouter = False, FrameAddr = \<lparr>MAC = [], IP = [], Port = 0\<rparr>,
      NameEntry_Name = [], Result_HuntStage = StageNoChange\<rparr>"

text \<open>What the handler starts or writes besides its return values.\<close>

datatype Effect =
  forceDecline bytes IP bytes IP bytes
  | saveConfig

definition getClientID :: "DHCP4 \<Rightarrow> Options \<Rightarrow> bytes" where
  "getClientID p options =
     (case options OptionClientIdentifier of Some clientID \<Rightarrow> clientID | None \<Rightarrow> CHAddr p)"

text \<open>
  The first part of \<open>handleRequest\<close>: \<open>reqIP\<close> and \<open>serverIP\<close> read from the
  options, and the switch that sets \<open>operation\<close> (and \<open>reqIP\<close> for a renewal or a
  rebind). It returns \<open>(operation, reqIP, serverIP)\<close>.
\<close>

definition option_IP :: "Options \<Rightarrow> 8 word \<Rightarrow> IP" where
  "option_IP options code = (case options code of Some tmp \<Rightarrow> To4 tmp | None \<Rightarrow> IPv4zero)"

definition handleRequest_operation :: "DHCP4 \<Rightarrow> Options \<Rightarrow> IP \<Rightarrow> Operation \<times> IP \<times> IP" where
  "handleRequest_operation p options senderIP =
     (let reqIP = option_IP options OptionRequestedIPAddress;
          serverIP = option_IP options OptionServerIdentifier
      in if \<not> IP_Equal serverIP IPv4zero then (selecting, reqIP, serverIP)
         else if IP_Equal reqIP IPv4zero \<and> \<not> IP_Equal senderIP IPv4bcast
         then (renewing, CIAddr p, serverIP)
         else if IP_Equal reqIP IPv4zero \<and> IP_Equal senderIP IPv4bcast
         then (rebinding, CIAddr p, serverIP)
         else (rebooting, reqIP, serverIP))"

text \<open>
  The end of \<open>handleRequest\<close>, "successful request": the lease becomes allocated and the
  ACK is built. \<open>r\<close> is the lease reference, \<open>SelectOrderOrAll\<close> the method of that
  name, which is not among the source files.
\<close>

definition handleRequest_success ::
  "(Options \<Rightarrow> bytes \<Rightarrow> (8 word \<times> bytes) list) \<Rightarrow> Handler \<Rightarrow> nat \<Rightarrow> DHCP4 \<Rightarrow> Options \<Rightarrow> bytes
     \<Rightarrow> Result \<Rightarrow> Time \<Rightarrow> Result \<times> Reply option \<times> Handler \<times> Effect list" where
  "handleRequest_success SelectOrderOrAll h r p options name result now =
     (let lease = objects (table h) r;
          lease1 = lease\<lparr>Name := name\<rparr>;
          lease2 = (if State lease1 = StateDiscover
                    then lease1\<lparr>Lease_Addr := (Lease_Addr lease1)\<lparr>IP := IPOffer lease1\<rparr>,
                                IPOffer := []\<rparr>
                    else lease1);
          lease3 = lease2\<lparr>State := StateAllocated,
                          DHCPExpiry := now + Duration (subnet lease2), Count := 0\<rparr>;
          lease4 = (case options OptionHostName of
                      Some tmp \<Rightarrow> lease3\<lparr>Name := tmp\<rparr>
                    | None \<Rightarrow> lease3);
          opts = SelectOrderOrAll (subnet_options (subnet lease4))
                 (option_value options OptionParameterRequestList);
          ret = ReplyPacket p ACK (DHCPServer (subnet lease4)) (IP (Lease_Addr lease4))
                  (Duration (subnet lease4)) opts;
          result1 = result\<lparr>FrameAddr := Lease_Addr lease4, Update := True,
                           Result_IsRouter := True, Result_HuntStage := Stage (subnet lease4),
                           NameEntry_Name := Name lease4\<rparr>
      in (result1, Some ret,
          h\<lparr>table := (table h)\<lparr>objects := (objects (table h))(r := lease4)\<rparr>\<rparr>,
          [saveConfig]))"

text \<open>
  \<open>handleRequest\<close>. \<open>findOrCreate\<close> and \<open>SelectOrderOrAll\<close> are the two methods it
  calls that are not among the source files: the first takes the lease table, the client
  id, the hardware address and the name, and returns a lease reference and the table.
  \<open>host\<close> is the \<open>*packet.Host\<close>, \<open>None\<close> for nil. \<open>now\<close> is
  \<open>time.Now()\<close>. The result is the \<open>packet.Result\<close>, the reply frame (\<open>None\<close> for
  nil), the handler afterwards and the effects. The log lines are left out.
\<close>

definition handleRequest ::
  "(leaseTable \<Rightarrow> bytes \<Rightarrow> bytes \<Rightarrow> bytes \<Rightarrow> nat \<times> leaseTable)
     \<Rightarrow> (Options \<Rightarrow> bytes \<Rightarrow> (8 word \<times> bytes) list)
     \<Rightarrow> Handler \<Rightarrow> nat option \<Rightarrow> DHCP4 \<Rightarrow> Options \<Rightarrow> IP \<Rightarrow> Time
     \<Rightarrow> Result \<times> Reply option \<times> Handler \<times> Effect list" where
  "handleRequest findOrCreate SelectOrderOrAll h host p options senderIP now =
     (let clientID = getClientID p options;
          name = option_value options OptionHostName;
          result = (if host \<noteq> None \<and> name \<noteq> []
                    then Result_zero\<lparr>Update := True, NameEntry_Name := name\<rparr>
                    else Result_zero);
          (operation, reqIP, serverIP) = handleRequest_operation p options senderIP
      in if IP_Equal reqIP IPv4zero then (result, None, h, [])
         else
           (let captured = IsCaptured (session h) (CHAddr p);
                sub = (if captured then net2 h else net1 h);
                (r, t) = findOrCreate (table h) clientID (CHAddr p) name;
                h1 = h\<lparr>table := t\<rparr>;
                lease = objects t r;
                attack = (mode h1 = ModeSecondaryServer
                          \<or> (mode h1 = ModeSecondaryServerNice \<and> captured));
                newHost = result\<lparr>Update := True, Result_IsRouter := True,
                                 FrameAddr := \<lparr>MAC = CHAddr p, IP = reqIP, Port = 0\<rparr>,
                                 NameEntry_Name := name, Result_HuntStage := StageNoChange\<rparr>
            in case operation of
                 selecting \<Rightarrow>
                   (if \<not> IP_Equal serverIP (DHCPServer sub)
                    then
                      (let lease1 = (if State lease \<noteq> StateDiscover
                                     then lease\<lparr>State := StateFree,
                                                Lease_Addr := (Lease_Addr lease)\<lparr>IP := []\<rparr>\<rparr>
                                     else lease);
                           h2 = h1\<lparr>table := t\<lparr>objects := (objects t)(r := lease1)\<rparr>\<rparr>
                       in if attack
                          then (newHost, Some (ReplyPacket p NAK (DHCPServer sub) IPv4zero 0 []),
                                h2, [])
                          else (newHost, None, h2, []))
                    else if MAC (Lease_Addr lease) \<noteq> CHAddr p
                            \<or> (State lease = StateDiscover
                                \<and> (XID lease \<noteq> XId p \<or> \<not> IP_Equal (IPOffer lease) reqIP))
                            \<or> (State lease = StateAllocated
                                \<and> \<not> IP_Equal (IP (Lease_Addr lease)) reqIP)
                    then (Result_zero, Some (ReplyPacket p NAK (DHCPServer sub) IPv4zero 0 []),
                          h1, [])
                    else handleRequest_success SelectOrderOrAll h1 r p options name result now)
               | renewing \<Rightarrow>
                   (if State lease \<noteq> StateAllocated
                       \<or> \<not> IP_Equal (IP (Lease_Addr lease)) reqIP
                       \<or> MAC (Lease_Addr lease) \<noteq> CHAddr p
                       \<or> DHCPExpiry lease < now
                    then (Result_zero, Some (ReplyPacket p NAK (DHCPServer sub) IPv4zero 0 []),
                          h1, [])
                    else handleRequest_success SelectOrderOrAll h1 r p options name result now)
               | _ \<Rightarrow>
                   (if State lease = StateFree \<and> attack
                    then (newHost,
                          Some (ReplyPacket p NAK (DefaultGW (net1 h1)) IPv4zero 0 []),
                          h1,
                          [forceDecline clientID (DefaultGW (net1 h1)) (CHAddr p) reqIP (XId p)])
                    else if State lease \<noteq> StateAllocated
                            \<or> \<not> IP_Equal (IP (Lease_Addr lease)) reqIP
                            \<or> MAC (Lease_Addr lease) \<noteq> CHAddr p
                            \<or> \<not> Contains (LAN sub) (IP (Lease_Addr lease))
                    then (newHost, Some (ReplyPacket p NAK (DHCPServer sub) IPv4zero 0 []),
                          h1,
                          (if attack
                           then [forceDecline clientID (DefaultGW (net1 h1)) (CHAddr p) reqIP
                                   (XId p)]
                           else []))
                    else handleRequest_success SelectOrderOrAll h1 r p options name newHost now)))"

section \<open>Package dhcp4: ProcessPacket and the reply's transport\<close>

definition EthBroadcast :: bytes where
  "EthBroadcast = [0xff, 0xff, 0xff, 0xff, 0xff, 0xff]"

text \<open>
  Modelled from the spec: the two UDP ports, whose declarations are not among the source
  files ("reply to ...:68", "Source is always (host MAC, host IP4):67").
\<close>

definition DHCP4ClientPort :: nat where
  "DHCP4ClientPort = 68"

definition DHCP4ServerPort :: nat where
  "DHCP4ServerPort = 67"

text \<open>
  The frame \<open>b\<close> by the views \<open>ProcessPacket\<close> reads from it: the Ethernet source,
  the IPv4 header's validity and source, the UDP header's validity, payload length and
  destination port, the DHCP frame's validity, its fields and its parsed options. The
  codecs behind these views are not among the source files.
\<close>

record Packet =
  Ether_Src :: bytes
  IP4_IsValid :: bool
  IP4_Src :: IP
  UDP_IsValid :: bool
  UDP_Payload_len :: nat
  UDP_DstPort :: nat
  DHCP4_IsValid :: bool
  dhcpFrame :: DHCP4
  ParseOptions :: Options

text \<open>
  What the calls made by \<open>ProcessPacket\<close> return for this frame: the client-port
  path, the four message handlers (\<open>handleRequest\<close> returns the host as well in this
  file) and the send.
\<close>

record Calls =
  processClientPacket :: "error option"
  handleDiscover :: "Result \<times> Reply option"
  handleRequest3 :: "nat option \<times> Result \<times> Reply option"
  handleDecline :: "Reply option"
  handleRelease :: "Reply option"
  sendDHCP4Packet :: "error option"

record NICInfo4 =
  HostMAC :: bytes
  HostIP4 :: IPNet

text \<open>
  The switch on the message type: the host, the result and the response after it.
\<close>

definition ProcessPacket_switch ::
  "Calls \<Rightarrow> nat option \<Rightarrow> MessageType \<Rightarrow> nat option \<times> Result \<times> Reply option" where
  "ProcessPacket_switch calls host reqType =
     (if reqType = Discover
      then (host, fst (handleDiscover calls), snd (handleDiscover calls))
      else if reqType = Request then handleRequest3 calls
      else if reqType = Decline then (host, Result_zero, handleDecline calls)
      else if reqType = Release then (host, Result_zero, handleRelease calls)
      else (host, Result_zero, None))"

text \<open>
  \<open>ProcessPacket\<close> returns the host, the result and the error (\<open>None\<close> for nil); the
  last component is the list of \<open>sendDHCP4Packet\<close> calls, each with its source address,
  destination address and frame.
\<close>

definition ProcessPacket ::
  "NICInfo4 \<Rightarrow> Calls \<Rightarrow> nat option \<Rightarrow> Packet
     \<Rightarrow> nat option \<times> Result \<times> error option \<times> (Addr \<times> Addr \<times> Reply) list" where
  "ProcessPacket nic calls host b =
     (if \<not> IP4_IsValid b then (host, Result_zero, Some ErrInvalidIP, [])
      else if \<not> UDP_IsValid b \<or> UDP_Payload_len b < 240
      then (host, Result_zero, Some ErrInvalidIP, [])
      else if \<not> DHCP4_IsValid b then (host, Result_zero, Some ErrParseMessage, [])
      else if UDP_DstPort b = DHCP4ClientPort
      then (host, Result_zero, processClientPacket calls, [])
      else
        (let t = option_value (ParseOptions b) OptionDHCPMessageType
         in if length t \<noteq> 1 then (host, Result_zero, Some ErrParseMessage, [])
            else
              (let reqType = t ! 0
               in if reqType < Discover \<or> reqType > Inform
                  then (host, Result_zero, Some ErrParseMessage, [])
                  else
                    (let (host1, result, response) = ProcessPacket_switch calls host reqType
                     in case response of
                          None \<Rightarrow> (host1, result, None, [])
                        | Some frame \<Rightarrow>
                            (let dstAddr =
                                   (if IP_Equal (IP4_Src b) IPv4zero \<or> Broadcast (dhcpFrame b)
                                    then \<lparr>MAC = EthBroadcast, IP = IPv4bcast,
                                          Port = DHCP4ClientPort\<rparr>
                                    else \<lparr>MAC = Ether_Src b, IP = IP4_Src b,
                                          Port = DHCP4ClientPort\<rparr>);
                                 srcAddr = \<lparr>MAC = HostMAC nic, IP = IPNet_IP (HostIP4 nic),
                                            Port = DHCP4ServerPort\<rparr>
                             in case sendDHCP4Packet calls of
                                  Some err \<Rightarrow>
                                    (host1, Result_zero, Some err, [(srcAddr, dstAddr, frame)])
                                | None \<Rightarrow>
                                    (host1, result, None, [(srcAddr, dstAddr, frame)]))))))"

section \<open>The two ICMPv6 sendPacket functions\<close>

text \<open>
  The frame a \<open>sendPacket\<close> writes, by the values its marshalling calls are given:
  \<open>EtherMarshalBinary\<close> (EtherType, source and destination MAC), \<open>IP6MarshalBinary\<close>
  (hop limit, source and destination address), \<open>AppendPayload\<close> (the payload and the
  next header) and \<open>SetChecksum\<close>. The marshallers and \<open>Checksum\<close> are not among the
  source files; \<open>Checksum\<close> is a parameter.
\<close>

record ICMP6Frame =
  EtherType :: nat
  Ether_SrcMAC :: bytes
  Ether_DstMAC :: bytes
  HopLimit :: "8 word"
  IP6_Src :: IP
  IP6_Dst :: IP
  NextHeader :: nat
  Payload :: bytes
  ICMP_Checksum :: "16 word"

definition ETH_P_IPV6 :: nat where
  "ETH_P_IPV6 = 0x86dd"

definition IPPROTO_ICMPV6 :: nat where
  "IPPROTO_ICMPV6 = 58"

text \<open>\<open>copy(dst[0:16], src)\<close> into zeroed bytes.\<close>

definition copy16 :: "bytes \<Rightarrow> bytes" where
  "copy16 src = take 16 (src @ replicate 16 0)"

definition PutUint32 :: "32 word \<Rightarrow> bytes" where
  "PutUint32 v = [ucast (drop_bit 24 v), ucast (drop_bit 16 v), ucast (drop_bit 8 v), ucast v]"

text \<open>The pseudo header the checksum is taken over.\<close>

definition psh :: "IP \<Rightarrow> IP \<Rightarrow> bytes \<Rightarrow> bytes" where
  "psh src dst b = copy16 src @ copy16 dst @ PutUint32 (word_of_nat (length b)) @ [0, 0, 0, 58] @ b"

text \<open>
  \<open>Handler6.sendPacket\<close> of package icmp; \<open>nic\<close> is
  \<open>h.session.NICInfo\<close>. The result is the frame and the address given to
  \<open>WriteTo\<close>.
\<close>

definition Handler6_sendPacket ::
  "(bytes \<Rightarrow> 16 word) \<Rightarrow> NICInfo4 \<Rightarrow> Addr \<Rightarrow> Addr \<Rightarrow> bytes \<Rightarrow> ICMP6Frame \<times> Addr" where
  "Handler6_sendPacket Checksum nic srcAddr dstAddr b =
     (let hopLimit = (if IsLinkLocalUnicast (IP dstAddr) \<or> IsLinkLocalMulticast (IP dstAddr)
                      then 255 else 64)
      in (\<lparr>EtherType = ETH_P_IPV6, Ether_SrcMAC = HostMAC nic, Ether_DstMAC = MAC dstAddr,
            HopLimit = hopLimit, IP6_Src = IP srcAddr, IP6_Dst = IP dstAddr,
            NextHeader = IPPROTO_ICMPV6, Payload = b,
            ICMP_Checksum = Checksum (psh (IP srcAddr) (IP dstAddr) b)\<rparr>,
          dstAddr))"

text \<open>\<open>ICMP6Handler.sendPacket\<close> of package icmp6.\<close>

definition ICMP6Handler_sendPacket ::
  "(bytes \<Rightarrow> 16 word) \<Rightarrow> Addr \<Rightarrow> Addr \<Rightarrow> bytes \<Rightarrow> ICMP6Frame \<times> Addr" where
  "ICMP6Handler_sendPacket Checksum srcAddr dstAddr b =
     (let hopLimit = (if IsLinkLocalUnicast (IP dstAddr) \<or> IsLinkLocalMulticast (IP dstAddr)
                      then 1 else 64)
      in (\<lparr>EtherType = ETH_P_IPV6, Ether_SrcMAC = MAC srcAddr, Ether_DstMAC = MAC dstAddr,
            HopLimit = hopLimit, IP6_Src = IP srcAddr, IP6_Dst = IP dstAddr,
            NextHeader = IPPROTO_ICMPV6, Payload = b,
            ICMP_Checksum = Checksum (psh (IP srcAddr) (IP dstAddr) b)\<rparr>,
          \<lparr>MAC = MAC dstAddr, IP = [], Port = 0\<rparr>))"

section \<open>Concrete inputs\<close>

definition config_zero_probe :: Config where
  "config_zero_probe =
     \<lparr>Config_NICInfo = Some testNICInfo, Config_ProbeDeadline = 0,
      Config_OfflineDeadline = 5 * Minute, Config_PurgeDeadline = Minute\<rparr>"

definition config_long_probe :: Config where
  "config_long_probe =
     \<lparr>Config_NICInfo = Some testNICInfo, Config_ProbeDeadline = 31 * Minute,
      Config_OfflineDeadline = 40 * Minute, Config_PurgeDeadline = 61 * Minute\<rparr>"

definition ip50 :: IP where
  "ip50 = [192, 168, 0, 50]"

definition request_mac1 :: DHCP4 where
  "request_mac1 = \<lparr>XId = [1, 1, 1, 1], CIAddr = [0, 0, 0, 0], CHAddr = mac1, Broadcast = False\<rparr>"

definition request_mac1_ciaddr :: DHCP4 where
  "request_mac1_ciaddr = request_mac1\<lparr>CIAddr := ip50\<rparr>"

definition options_server_only :: Options where
  "options_server_only = [OptionServerIdentifier \<mapsto> hostIP4]"

text \<open>
  The handler of the spec's scenarios: home LAN 192.168.0.0/24 with the router at
  192.168.0.11 and this host at 192.168.0.129, netfilter LAN 192.168.1.0/24 with its
  gateway at 192.168.1.129, leases of four hours. The MAC table holds \<open>mac1\<close>, not
  captured, and \<open>mac2\<close>, captured.
\<close>

definition homeSubnet :: dhcpSubnet where
  "homeSubnet =
     \<lparr>LAN = \<lparr>IPNet_IP = IPv4 192 168 0 0, Mask = [255, 255, 255, 0]\<rparr>,
      DefaultGW = routerIP4, DHCPServer = hostIP4, DNSServer = [8, 8, 8, 8],
      Duration = 4 * Hour, FirstIP = [192, 168, 0, 1], LastIP = [192, 168, 0, 254],
      Stage = StageNormal, subnet_options = Map.empty\<rparr>"

definition netfilterSubnet :: dhcpSubnet where
  "netfilterSubnet =
     \<lparr>LAN = \<lparr>IPNet_IP = [192, 168, 1, 0], Mask = [255, 255, 255, 0]\<rparr>,
      DefaultGW = [192, 168, 1, 129], DHCPServer = hostIP4, DNSServer = IPv4 1 1 1 3,
      Duration = 4 * Hour, FirstIP = [192, 168, 1, 10], LastIP = [192, 168, 1, 254],
      Stage = StageRedirected, subnet_options = Map.empty\<rparr>"

definition test_session :: Session where
  "test_session =
     \<lparr>NICInfo = testNICInfo, ProbeDeadline = 2 * Minute, OfflineDeadline = 5 * Minute,
      PurgeDeadline = 61 * Minute, HostTable = [],
      MACTable = [newMACEntry mac1, (newMACEntry mac2)\<lparr>Captured := True\<rparr>]\<rparr>"

definition free_lease :: "bytes \<Rightarrow> dhcpSubnet \<Rightarrow> Lease" where
  "free_lease mac sub =
     \<lparr>ClientID = mac, Lease_Addr = \<lparr>MAC = mac, IP = [], Port = 0\<rparr>, XID = [],
      State = StateFree, IPOffer = [], DHCPExpiry = 0, Count = 0, Name = [], subnet = sub\<rparr>"

definition test_table :: leaseTable where
  "test_table =
     \<lparr>index = [mac1 \<mapsto> 0, mac2 \<mapsto> 1],
      objects = (\<lambda>r. if r = 1 then free_lease mac2 netfilterSubnet
                      else free_lease mac1 homeSubnet)\<rparr>"

definition test_handler :: Handler where
  "test_handler =
     \<lparr>session = test_session, mode = ModeSecondaryServerNice, table = test_table,
      net1 = homeSubnet, net2 = netfilterSubnet\<rparr>"

text \<open>
  A \<open>findOrCreate\<close> for a client whose lease exists: the reference the index holds for
  the client id, the table unchanged.
\<close>

definition find_existing :: "leaseTable \<Rightarrow> bytes \<Rightarrow> bytes \<Rightarrow> bytes \<Rightarrow> nat \<times> leaseTable" where
  "find_existing t clientID mac name = (case index t clientID of Some r \<Rightarrow> (r, t) | None \<Rightarrow> (0, t))"

definition no_options :: "Options \<Rightarrow> bytes \<Rightarrow> (8 word \<times> bytes) list" where
  "no_options os prl = []"

definition options_reboot :: Options where
  "options_reboot = [OptionRequestedIPAddress \<mapsto> ip50]"

definition options_select :: Options where
  "options_select = [OptionServerIdentifier \<mapsto> hostIP4, OptionRequestedIPAddress \<mapsto> ip50]"

definition request_mac2 :: DHCP4 where
  "request_mac2 = \<lparr>XId = [2, 2, 2, 2], CIAddr = [0, 0, 0, 0], CHAddr = mac2, Broadcast = True\<rparr>"

text \<open>The defaults of \<open>NewSession(nic)\<close>: 2, 5 and 61 minutes.\<close>

definition config_default :: Config where
  "config_default =
     \<lparr>Config_NICInfo = Some testNICInfo, Config_ProbeDeadline = Minute * 2,
      Config_OfflineDeadline = Minute * 5, Config_PurgeDeadline = Minute * 61\<rparr>"

definition started_session :: Session where
  "started_session =
     (case NewSession 1000 1000 config_default of Inr s \<Rightarrow> s | Inl e \<Rightarrow> test_session)"

text \<open>
  A session with two hosts of \<open>mac1\<close>, both online and last seen at time 0: the
  link-local \<open>fe80::2\<close> and 192.168.0.50.
\<close>

definition stale_session :: Session where
  "stale_session =
     test_session
       \<lparr>HostTable :=
          [\<lparr>Host_Addr = \<lparr>MAC = mac1, IP = ip6LLA2, Port = 0\<rparr>, Host_MACEntry = 0,
            Online = True, LastSeen = 0\<rparr>,
           \<lparr>Host_Addr = \<lparr>MAC = mac1, IP = ip50, Port = 0\<rparr>, Host_MACEntry = 0,
            Online = True, LastSeen = 0\<rparr>],
        MACTable :=
          [(newMACEntry mac1)\<lparr>MACEntry_Online := True, HostList := [0, 1]\<rparr>,
           (newMACEntry mac2)\<lparr>Captured := True\<rparr>]\<rparr>"

definition stale_session_no_lla :: Session where
  "stale_session_no_lla = stale_session\<lparr>NICInfo := testNICInfo\<lparr>HostLLA_IP := []\<rparr>\<rparr>"

definition router_session :: Session where
  "router_session =
     test_session
       \<lparr>MACTable := [(newMACEntry routerMAC)\<lparr>IsRouter := True, Captured := True\<rparr>]\<rparr>"

definition testNICInfo4 :: NICInfo4 where
  "testNICInfo4 =
     \<lparr>HostMAC = hostMAC, HostIP4 = \<lparr>IPNet_IP = hostIP4, Mask = [255, 255, 255, 0]\<rparr>\<rparr>"

definition request_packet :: Packet where
  "request_packet =
     \<lparr>Ether_Src = mac1, IP4_IsValid = True, IP4_Src = IPv4zero, UDP_IsValid = True,
      UDP_Payload_len = 300, UDP_DstPort = 67, DHCP4_IsValid = True,
      dhcpFrame = request_mac1,
      ParseOptions = options_select(OptionDHCPMessageType \<mapsto> [Request])\<rparr>"

definition nak_calls :: Calls where
  "nak_calls =
     \<lparr>processClientPacket = None, handleDiscover = (Result_zero, None),
      handleRequest3 = (None, Result_zero, Some (ReplyPacket request_mac1 NAK hostIP4 IPv4zero 0 [])),
      handleDecline = None, handleRelease = None, sendDHCP4Packet = None\<rparr>"

definition ip6_global :: IP where
  "ip6_global = [0x20, 0x01, 0, 0, 0, 0, 0, 0, 0, 0, 0, 0, 0, 0, 0, 0x01]"

definition zero_checksum :: "bytes \<Rightarrow> 16 word" where
  "zero_checksum b = 0"

section \<open>The operation of a REQUEST\<close>

text \<open>
  C1 (as amended). The operation \<open>handleRequest\<close> computes is Selecting exactly when the
  ServerIdentifier read from the options is not zero, whatever RequestedIP, CIAddr and the
  sender are; with a zero ServerIdentifier it is Rebooting exactly when RequestedIP is not
  zero, and with both zero it is Rebinding when the sender is the broadcast address and
  Renewing otherwise. CIAddr takes no part. An absent option reads as zero.
\<close>

theorem C1_operation:
  "(fst (handleRequest_operation p options senderIP) = selecting
      \<longleftrightarrow> \<not> IP_Equal (option_IP options OptionServerIdentifier) IPv4zero)
   \<and> (fst (handleRequest_operation p options senderIP) = renewing
      \<longleftrightarrow> IP_Equal (option_IP options OptionServerIdentifier) IPv4zero
          \<and> IP_Equal (option_IP options OptionRequestedIPAddress) IPv4zero
          \<and> \<not> IP_Equal senderIP IPv4bcast)
   \<and> (fst (handleRequest_operation p options senderIP) = rebinding
      \<longleftrightarrow> IP_Equal (option_IP options OptionServerIdentifier) IPv4zero
          \<and> IP_Equal (option_IP options OptionRequestedIPAddress) IPv4zero
          \<and> IP_Equal senderIP IPv4bcast)
   \<and> (fst (handleRequest_operation p options senderIP) = rebooting
      \<longleftrightarrow> IP_Equal (option_IP options OptionServerIdentifier) IPv4zero
          \<and> \<not> IP_Equal (option_IP options OptionRequestedIPAddress) IPv4zero)"
  by (simp add: handleRequest_operation_def Let_def)

text \<open>
  The theorem at a request that carries only a ServerIdentifier, sent from 192.168.0.50.
\<close>

theorem C1_operation_witness:
  "fst (handleRequest_operation request_mac1_ciaddr options_server_only ip50) \<noteq> renewing"
proof -
  have "\<not> IP_Equal (option_IP options_server_only OptionServerIdentifier) IPv4zero"
    by code_simp
  then show ?thesis
    using C1_operation [of request_mac1_ciaddr options_server_only ip50] by simp
qed

text \<open>
  C1 as stated fails: a request with a ServerIdentifier, no RequestedIP, a non-zero CIAddr
  and a non-zero sender is Selecting.
\<close>

theorem C1_counterexample:
  "fst (handleRequest_operation request_mac1_ciaddr options_server_only ip50) = selecting
   \<and> options_server_only OptionRequestedIPAddress = None
   \<and> \<not> IP_Equal (CIAddr request_mac1_ciaddr) IPv4zero
   \<and> \<not> IP_Equal ip50 IPv4zero"
  by code_simp

section \<open>A REQUEST with no address to request\<close>

text \<open>
  C9. When the RequestedIPAddress option is absent or zero and CIAddr is zero,
  \<open>handleRequest\<close> returns no reply frame, leaves the handler (and so the lease table)
  as it was and starts nothing.
\<close>

theorem C9_zero_request_dropped:
  assumes "options OptionRequestedIPAddress = None
           \<or> (\<exists>tmp. options OptionRequestedIPAddress = Some tmp \<and> IP_Equal (To4 tmp) IPv4zero)"
    and "IP_Equal (CIAddr p) IPv4zero"
  shows "snd (handleRequest findOrCreate SelectOrderOrAll h host p options senderIP now)
           = (None, h, [])"
proof -
  have "IP_Equal IPv4zero IPv4zero"
    by (simp add: IP_Equal_def)
  then have "IP_Equal (option_IP options OptionRequestedIPAddress) IPv4zero"
    using assms(1) by (auto simp: option_IP_def)
  then show ?thesis
    using assms(2) by (simp add: handleRequest_def handleRequest_operation_def Let_def)
qed

text \<open>
  The theorem at a REQUEST that names this server but carries no RequestedIPAddress and a
  zero CIAddr.
\<close>

theorem C9_zero_request_dropped_witness:
  "options_server_only OptionRequestedIPAddress = None
   \<and> IP_Equal (CIAddr request_mac1) IPv4zero
   \<and> snd (handleRequest find_existing no_options test_handler None request_mac1
             options_server_only IPv4bcast 0) = (None, test_handler, [])"
proof -
  have a: "options_server_only OptionRequestedIPAddress = None"
    by (simp add: options_server_only_def OptionRequestedIPAddress_def
        OptionServerIdentifier_def)
  have b: "IP_Equal (CIAddr request_mac1) IPv4zero"
    by code_simp
  have c: "options_server_only OptionRequestedIPAddress = None
           \<or> (\<exists>tmp. options_server_only OptionRequestedIPAddress = Some tmp
                  \<and> IP_Equal (To4 tmp) IPv4zero)"
    using a by simp
  show ?thesis
    using a b
      C9_zero_request_dropped [where options = options_server_only and p = request_mac1
        and findOrCreate = find_existing and SelectOrderOrAll = no_options
        and h = test_handler and host = None and senderIP = IPv4bcast and now = 0, OF c b]
    by simp
qed

section \<open>Construction-time validation of the deadlines\<close>

text \<open>
  C7 (as amended). \<open>NewSession\<close> fails with \<open>ErrInvalidParam\<close> exactly when the probe
  deadline is negative or above 30 minutes, or the offline deadline is negative, above 60
  minutes or below the probe deadline, or the purge deadline is negative or above 24 hours.
  A zero probe deadline, an offline deadline equal to the probe deadline and a purge
  deadline below the offline deadline are accepted.
\<close>

theorem C7_NewSession_InvalidParam:
  "isInvalidParam (NewSession stamp now config) \<longleftrightarrow>
     (Config_ProbeDeadline config < 0 \<or> Config_ProbeDeadline config > Minute * 30
      \<or> Config_OfflineDeadline config < 0 \<or> Config_OfflineDeadline config > Minute * 60
      \<or> Config_OfflineDeadline config < Config_ProbeDeadline config
      \<or> Config_PurgeDeadline config < 0 \<or> Config_PurgeDeadline config > Hour * 24)"
  by (auto simp: NewSession_def isInvalidParam_def Let_def split: option.splits prod.splits)

theorem C7_NewSession_InvalidParam_witness:
  "isInvalidParam (NewSession 1000 1000 config_long_probe)"
  using C7_NewSession_InvalidParam [of 1000 1000 config_long_probe]
  by (simp add: config_long_probe_def Minute_def Second_def)

text \<open>
  C7 as stated fails: a configuration with a zero probe deadline and a purge deadline
  below the offline deadline is not rejected.
\<close>

theorem C7_counterexample:
  "Config_ProbeDeadline config_zero_probe = 0
   \<and> Config_PurgeDeadline config_zero_probe < Config_OfflineDeadline config_zero_probe
   \<and> \<not> isInvalidParam (NewSession 1000 1000 config_zero_probe)"
  by code_simp

section \<open>Selecting for this server\<close>

text \<open>
  What the Selecting arm does for a lease that is not Free, for every \<open>findOrCreate\<close>:
  an ACK when the lease's MAC is the frame's CHAddr and the lease is in Discover with the
  request's XID and \<open>IPOffer\<close> equal to the requested address, or Allocated with its
  address equal to the requested one; otherwise a NAK from the subnet's \<open>DHCPServer\<close>.
\<close>

lemma handleRequest_selecting_ours:
  assumes "handleRequest_operation p options senderIP = (selecting, reqIP, serverIP)"
    and "\<not> IP_Equal reqIP IPv4zero"
    and "IP_Equal serverIP
           (DHCPServer (if IsCaptured (session h) (CHAddr p) then net2 h else net1 h))"
    and "findOrCreate (table h) (getClientID p options) (CHAddr p)
           (option_value options OptionHostName) = (r, t)"
    and "State (objects t r) \<noteq> StateFree"
  shows "if MAC (Lease_Addr (objects t r)) = CHAddr p
            \<and> (State (objects t r) = StateDiscover \<and> XID (objects t r) = XId p
                  \<and> IP_Equal (IPOffer (objects t r)) reqIP
                \<or> State (objects t r) = StateAllocated
                  \<and> IP_Equal (IP (Lease_Addr (objects t r))) reqIP)
         then \<exists>sid yiaddr d os.
                fst (snd (handleRequest findOrCreate SelectOrderOrAll h host p options senderIP now))
                  = Some (ReplyPacket p ACK sid yiaddr d os)
         else fst (snd (handleRequest findOrCreate SelectOrderOrAll h host p options senderIP now))
                = Some (ReplyPacket p NAK
                    (DHCPServer (if IsCaptured (session h) (CHAddr p) then net2 h else net1 h))
                    IPv4zero 0 [])"
  using assms
  by (cases "State (objects t r)")
     (auto simp: handleRequest_def handleRequest_success_def Let_def split: option.splits)

text \<open>
  C2, at the input where the code departs from it. A Selecting REQUEST for this server
  (ServerIdentifier 192.168.0.129, RequestedIP 192.168.0.50) from \<open>mac1\<close>, whose lease
  is Free with the same MAC and no address: the reply is an ACK, its yiaddr is the lease's
  empty address, and the lease is recorded as Allocated.
\<close>

theorem C2_free_lease_acked:
  "fst (handleRequest_operation request_mac1 options_select IPv4zero) = selecting
   \<and> IP_Equal (option_IP options_select OptionServerIdentifier) (DHCPServer (net1 test_handler))
   \<and> State (objects (table test_handler) 0) = StateFree
   \<and> MAC (Lease_Addr (objects (table test_handler) 0)) = CHAddr request_mac1
   \<and> fst (snd (handleRequest find_existing no_options test_handler None request_mac1
                 options_select IPv4zero 1000))
       = Some (ReplyPacket request_mac1 ACK hostIP4 [] (4 * Hour) [])
   \<and> State (objects (table (fst (snd (snd (handleRequest find_existing no_options
              test_handler None request_mac1 options_select IPv4zero 1000))))) 0)
       = StateAllocated"
  by code_simp

text \<open>The reply at that input is an ACK, not a NAK.\<close>

theorem C2_free_lease_acked_witness:
  "\<exists>yiaddr. fst (snd (handleRequest find_existing no_options test_handler None request_mac1
                      options_select IPv4zero 1000))
             = Some (ReplyPacket request_mac1 ACK hostIP4 yiaddr (4 * Hour) [])"
  using C2_free_lease_acked by blast

section \<open>Rebooting or rebinding with a Free lease, while attacking\<close>

text \<open>
  C3 (as amended). For a REQUEST whose operation is Rebooting or Rebinding and whose
  request address (the RequestedIP option when Rebooting, CIAddr when Rebinding) is not
  zero, with a Free lease, in mode SecondaryServer or in SecondaryServerNice with the MAC
  captured: \<open>handleRequest\<close> starts one \<open>forceDecline\<close> to the home gateway
  \<open>net1.DefaultGW\<close> with the client id, the CHAddr, that request address and the XID,
  and returns a NAK whose ServerIdentifier is the home gateway \<open>net1.DefaultGW\<close>.
\<close>

theorem C3_free_lease_decline_and_nak:
  assumes "handleRequest_operation p options senderIP = (operation, reqIP, serverIP)"
    and "operation = rebooting \<or> operation = rebinding"
    and "\<not> IP_Equal reqIP IPv4zero"
    and "findOrCreate (table h) (getClientID p options) (CHAddr p)
           (option_value options OptionHostName) = (r, t)"
    and "State (objects t r) = StateFree"
    and "mode h = ModeSecondaryServer
         \<or> (mode h = ModeSecondaryServerNice \<and> IsCaptured (session h) (CHAddr p))"
  shows "fst (snd (handleRequest findOrCreate SelectOrderOrAll h host p options senderIP now))
           = Some (ReplyPacket p NAK (DefaultGW (net1 h)) IPv4zero 0 [])
       \<and> snd (snd (snd (handleRequest findOrCreate SelectOrderOrAll h host p options senderIP
                          now)))
           = [forceDecline (getClientID p options) (DefaultGW (net1 h)) (CHAddr p) reqIP (XId p)]"
  using assms by (auto simp: handleRequest_def Let_def)

text \<open>
  The theorem at the spec's scenario S2: \<open>mac2\<close> is captured, the mode is
  SecondaryServerNice, the REQUEST asks for 192.168.0.50 from 255.255.255.255 with no
  ServerIdentifier, and the lease of \<open>mac2\<close> is Free.
\<close>

theorem C3_free_lease_decline_and_nak_witness:
  "fst (snd (handleRequest find_existing no_options test_handler None request_mac2
               options_reboot IPv4bcast 1000))
     = Some (ReplyPacket request_mac2 NAK routerIP4 IPv4zero 0 [])
   \<and> snd (snd (snd (handleRequest find_existing no_options test_handler None request_mac2
                      options_reboot IPv4bcast 1000)))
     = [forceDecline mac2 routerIP4 mac2 ip50 [2, 2, 2, 2]]"
proof -
  have op: "handleRequest_operation request_mac2 options_reboot IPv4bcast
              = (rebooting, ip50, IPv4zero)"
    by code_simp
  have nz: "\<not> IP_Equal ip50 IPv4zero"
    by code_simp
  have cid: "getClientID request_mac2 options_reboot = mac2"
    by code_simp
  have foc: "find_existing (table test_handler) (getClientID request_mac2 options_reboot)
               (CHAddr request_mac2) (option_value options_reboot OptionHostName)
             = (1, table test_handler)"
    by (simp add: find_existing_def test_handler_def test_table_def cid mac1_def mac2_def)
  have st: "State (objects (table test_handler) 1) = StateFree"
    by code_simp
  have md: "mode test_handler = ModeSecondaryServer
            \<or> (mode test_handler = ModeSecondaryServerNice
                \<and> IsCaptured (session test_handler) (CHAddr request_mac2))"
    by code_simp
  have gw: "DefaultGW (net1 test_handler) = routerIP4" "CHAddr request_mac2 = mac2"
    "XId request_mac2 = [2, 2, 2, 2]"
    by (simp_all add: test_handler_def homeSubnet_def request_mac2_def)
  show ?thesis
    using C3_free_lease_decline_and_nak [where findOrCreate = find_existing
        and h = test_handler and p = request_mac2 and options = options_reboot
        and senderIP = IPv4bcast and SelectOrderOrAll = no_options and host = None
        and now = 1000, OF op _ nz foc st md] cid gw
    by simp
qed

text \<open>
  C3 as stated fails at scenario S2: the NAK's ServerIdentifier is the router's address
  192.168.0.11, which is the \<open>DHCPServer\<close> of neither subnet of the handler.
\<close>

theorem C3_counterexample:
  "fst (handleRequest_operation request_mac2 options_reboot IPv4bcast) = rebooting
   \<and> State (objects (table test_handler) 1) = StateFree
   \<and> fst (find_existing (table test_handler) (getClientID request_mac2 options_reboot)
            (CHAddr request_mac2) (option_value options_reboot OptionHostName)) = 1
   \<and> mode test_handler = ModeSecondaryServerNice
   \<and> IsCaptured (session test_handler) (CHAddr request_mac2)
   \<and> fst (snd (handleRequest find_existing no_options test_handler None request_mac2
                 options_reboot IPv4bcast 1000))
       = Some (ReplyPacket request_mac2 NAK routerIP4 IPv4zero 0 [])
   \<and> \<not> IP_Equal routerIP4 (DHCPServer (net1 test_handler))
   \<and> \<not> IP_Equal routerIP4 (DHCPServer (net2 test_handler))"
  by code_simp

section \<open>The probes of a purge pass\<close>

text \<open>
  C4, at the inputs where the code departs from it. Both hosts of \<open>stale_session\<close> are
  online and were last seen before the probe cutoff, so both are listed for a probe. With
  the host's link-local address set, the pass sends the ARP request for 192.168.0.50 and
  nothing for \<open>fe80::2\<close>. With no link-local address, it sends the Neighbor Solicitation
  for \<open>fe80::2\<close> (from a nil source address) and then stops: no ARP request for
  192.168.0.50.
\<close>

theorem C4_purge_probes:
  "fst (snd (purge_scan (Minute * 10) stale_session))
     = [\<lparr>MAC = mac1, IP = ip6LLA2, Port = 0\<rparr>, \<lparr>MAC = mac1, IP = ip50, Port = 0\<rparr>]
   \<and> HostLLA_IP (NICInfo stale_session) = ip6LLAHost
   \<and> IsLinkLocalUnicast ip6LLA2
   \<and> probes (purge stale_session (Minute * 10)) = [ARPRequest ip50]
   \<and> fst (snd (purge_scan (Minute * 10) stale_session_no_lla))
     = [\<lparr>MAC = mac1, IP = ip6LLA2, Port = 0\<rparr>, \<lparr>MAC = mac1, IP = ip50, Port = 0\<rparr>]
   \<and> probes (purge stale_session_no_lla (Minute * 10))
     = [ICMP6SendNeighbourSolicitation \<lparr>MAC = hostMAC, IP = [], Port = 0\<rparr>
          (IPv6SolicitedNode ip6LLA2) ip6LLA2]"
  by code_simp

text \<open>Two hosts are listed for a probe and one probe is sent, in both sessions.\<close>

theorem C4_purge_probes_witness:
  "length (fst (snd (purge_scan (Minute * 10) stale_session))) = 2
   \<and> length (probes (purge stale_session (Minute * 10))) = 1
   \<and> length (fst (snd (purge_scan (Minute * 10) stale_session_no_lla))) = 2
   \<and> length (probes (purge stale_session_no_lla (Minute * 10))) = 1"
  using C4_purge_probes by simp

section \<open>The two entries NewSession makes\<close>

lemma NewSession_deadlines:
  assumes "NewSession stamp now config = Inr s"
  shows "0 \<le> ProbeDeadline s \<and> 0 \<le> OfflineDeadline s \<and> 0 \<le> PurgeDeadline s"
  using assms
  by (auto simp: NewSession_def Let_def findOrCreateHostWithLock_def MACTable_findOrCreate_def
      updHost_def updMACEntry_def
      split: if_splits option.splits prod.splits)

text \<open>
  The tables of a new session: one host when the router's address is the host's own, two
  hosts of one MAC entry when only the MAC is shared, two hosts and two entries otherwise.
\<close>

lemma NewSession_tables:
  assumes "NewSession stamp now config = Inr s" and "Config_NICInfo config = Some nic"
  shows "(MAC (HostAddr4 nic) = MAC (RouterAddr4 nic)
          \<and> IP (HostAddr4 nic) = IP (RouterAddr4 nic)
          \<and> HostTable s = [\<lparr>Host_Addr = \<lparr>MAC = MAC (HostAddr4 nic), IP = IP (HostAddr4 nic), Port = 0\<rparr>,
                Host_MACEntry = 0, Online = True, LastSeen = now + Hour * 24 * 365\<rparr>]
          \<and> MACTable s = [(newMACEntry (MAC (HostAddr4 nic)))
                       \<lparr>HostList := [0], MACEntry_Online := True, IsRouter := True\<rparr>])
       \<or> (MAC (HostAddr4 nic) = MAC (RouterAddr4 nic)
          \<and> IP (HostAddr4 nic) \<noteq> IP (RouterAddr4 nic)
          \<and> HostTable s = [\<lparr>Host_Addr = \<lparr>MAC = MAC (HostAddr4 nic), IP = IP (HostAddr4 nic), Port = 0\<rparr>,
                Host_MACEntry = 0, Online = True, LastSeen = now + Hour * 24 * 365\<rparr>,
              \<lparr>Host_Addr = \<lparr>MAC = MAC (RouterAddr4 nic), IP = IP (RouterAddr4 nic), Port = 0\<rparr>,
                Host_MACEntry = 0, Online = True, LastSeen = stamp\<rparr>]
          \<and> MACTable s = [(newMACEntry (MAC (HostAddr4 nic)))
                       \<lparr>HostList := [0, 1], MACEntry_Online := True, IsRouter := True\<rparr>])
       \<or> (MAC (HostAddr4 nic) \<noteq> MAC (RouterAddr4 nic)
          \<and> HostTable s = [\<lparr>Host_Addr = \<lparr>MAC = MAC (HostAddr4 nic), IP = IP (HostAddr4 nic), Port = 0\<rparr>,
                Host_MACEntry = 0, Online = True, LastSeen = now + Hour * 24 * 365\<rparr>,
              \<lparr>Host_Addr = \<lparr>MAC = MAC (RouterAddr4 nic), IP = IP (RouterAddr4 nic), Port = 0\<rparr>,
                Host_MACEntry = 1, Online = True, LastSeen = stamp\<rparr>]
          \<and> MACTable s = [(newMACEntry (MAC (HostAddr4 nic)))\<lparr>HostList := [0], MACEntry_Online := True\<rparr>,
                     (newMACEntry (MAC (RouterAddr4 nic)))
                       \<lparr>HostList := [1], MACEntry_Online := True, IsRouter := True\<rparr>])"
  using assms
  by (auto simp: NewSession_def Let_def findOrCreateHostWithLock_def MACTable_findOrCreate_def
      updHost_def updMACEntry_def newMACEntry_def
      split: if_splits option.splits prod.splits)

lemma Session_MACTable_same: "MACTable s = m \<Longrightarrow> s\<lparr>MACTable := m\<rparr> = s"
  by simp

text \<open>
  A purge pass on a new session, at any time: both hosts are online, so nothing is listed
  for deletion, and an offline notification recomputes the entry's \<open>Online\<close> as true
  again. \<open>notifyOffline\<close> does not write \<open>host.Online\<close>. The session after the pass
  is the session before it.
\<close>

lemma NewSession_purge_identity:
  assumes "NewSession stamp now config = Inr s" and "Config_NICInfo config = Some nic"
  shows "session_after (purge s t) = s \<and> deleted (purge s t) = []"
proof -
  from NewSession_tables [OF assms]
  consider
    (same) "MAC (HostAddr4 nic) = MAC (RouterAddr4 nic)" "IP (HostAddr4 nic) = IP (RouterAddr4 nic)"
      "HostTable s = [\<lparr>Host_Addr = \<lparr>MAC = MAC (HostAddr4 nic), IP = IP (HostAddr4 nic), Port = 0\<rparr>,
                Host_MACEntry = 0, Online = True, LastSeen = now + Hour * 24 * 365\<rparr>]"
      "MACTable s = [(newMACEntry (MAC (HostAddr4 nic)))
                       \<lparr>HostList := [0], MACEntry_Online := True, IsRouter := True\<rparr>]"
  | (same_mac) "MAC (HostAddr4 nic) = MAC (RouterAddr4 nic)" "IP (HostAddr4 nic) \<noteq> IP (RouterAddr4 nic)"
      "HostTable s = [\<lparr>Host_Addr = \<lparr>MAC = MAC (HostAddr4 nic), IP = IP (HostAddr4 nic), Port = 0\<rparr>,
                Host_MACEntry = 0, Online = True, LastSeen = now + Hour * 24 * 365\<rparr>,
              \<lparr>Host_Addr = \<lparr>MAC = MAC (RouterAddr4 nic), IP = IP (RouterAddr4 nic), Port = 0\<rparr>,
                Host_MACEntry = 0, Online = True, LastSeen = stamp\<rparr>]"
      "MACTable s = [(newMACEntry (MAC (HostAddr4 nic)))
                       \<lparr>HostList := [0, 1], MACEntry_Online := True, IsRouter := True\<rparr>]"
  | (other) "MAC (HostAddr4 nic) \<noteq> MAC (RouterAddr4 nic)"
      "HostTable s = [\<lparr>Host_Addr = \<lparr>MAC = MAC (HostAddr4 nic), IP = IP (HostAddr4 nic), Port = 0\<rparr>,
                Host_MACEntry = 0, Online = True, LastSeen = now + Hour * 24 * 365\<rparr>,
              \<lparr>Host_Addr = \<lparr>MAC = MAC (RouterAddr4 nic), IP = IP (RouterAddr4 nic), Port = 0\<rparr>,
                Host_MACEntry = 1, Online = True, LastSeen = stamp\<rparr>]"
      "MACTable s = [(newMACEntry (MAC (HostAddr4 nic)))\<lparr>HostList := [0], MACEntry_Online := True\<rparr>,
                     (newMACEntry (MAC (RouterAddr4 nic)))
                       \<lparr>HostList := [1], MACEntry_Online := True, IsRouter := True\<rparr>]"
    by blast
  then show ?thesis
  proof cases
    case same
    then show ?thesis
      by (simp add: purge_def purge_scan_def purge_entry_def notifyOffline_def updMACEntry_def
          Let_def newMACEntry_def Session_MACTable_same)
  next
    case same_mac
    then show ?thesis
      by (simp add: purge_def purge_scan_def purge_entry_def notifyOffline_def updMACEntry_def
          Let_def newMACEntry_def Session_MACTable_same)
  next
    case other
    then show ?thesis
      by (simp add: purge_def purge_scan_def purge_entry_def notifyOffline_def updMACEntry_def
          Let_def newMACEntry_def Session_MACTable_same)
  qed
qed

text \<open>
  C5 (as amended). After \<open>NewSession\<close> returns a session, the table holds a host record
  for the interface's own IPv4 address and one for the gateway's, each with
  \<open>Online\<close> and its entry's \<open>Online\<close> true, and the gateway's entry has
  \<open>IsRouter\<close>. Only the own-address record has \<open>LastSeen\<close> set to \<open>now\<close> plus
  one year; the gateway's record keeps the \<open>LastSeen\<close> it was created with (unless it
  is the own-address record itself). A purge pass, at any time, leaves this session as it
  is and lists nothing for deletion, so neither record is marked offline or purged; a pass
  run up to \<open>now\<close> plus one year lists the own-address record neither for a probe nor
  for an offline notification.
\<close>

theorem C5_NewSession_entries:
  assumes "NewSession stamp now config = Inr s" and "Config_NICInfo config = Some nic"
  shows "\<exists>i j. findHost (HostTable s) (HostAddr4 nic) = Some i
           \<and> findHost (HostTable s) (RouterAddr4 nic) = Some j
           \<and> Online (HostTable s ! i)
           \<and> MACEntry_Online (MACTable s ! Host_MACEntry (HostTable s ! i))
           \<and> LastSeen (HostTable s ! i) = now + Hour * 24 * 365
           \<and> Online (HostTable s ! j)
           \<and> MACEntry_Online (MACTable s ! Host_MACEntry (HostTable s ! j))
           \<and> IsRouter (MACTable s ! Host_MACEntry (HostTable s ! j))
           \<and> LastSeen (HostTable s ! j) = (if j = i then now + Hour * 24 * 365 else stamp)
           \<and> (\<forall>t. session_after (purge s t) = s \<and> deleted (purge s t) = [])
           \<and> (\<forall>t. t \<le> now + Hour * 24 * 365 \<longrightarrow>
                 Host_Addr (HostTable s ! i) \<notin> set (fst (snd (purge_scan t s)))
                 \<and> i \<notin> set (snd (snd (purge_scan t s))))"
proof -
  have d: "0 \<le> ProbeDeadline s" "0 \<le> OfflineDeadline s" "0 \<le> PurgeDeadline s"
    using NewSession_deadlines [OF assms(1)] by simp_all
  have p: "\<forall>t. session_after (purge s t) = s \<and> deleted (purge s t) = []"
    using NewSession_purge_identity [OF assms] by blast
  from NewSession_tables [OF assms]
  consider
    (same) "MAC (HostAddr4 nic) = MAC (RouterAddr4 nic)" "IP (HostAddr4 nic) = IP (RouterAddr4 nic)"
      "HostTable s = [\<lparr>Host_Addr = \<lparr>MAC = MAC (HostAddr4 nic), IP = IP (HostAddr4 nic), Port = 0\<rparr>,
                Host_MACEntry = 0, Online = True, LastSeen = now + Hour * 24 * 365\<rparr>]"
      "MACTable s = [(newMACEntry (MAC (HostAddr4 nic)))
                       \<lparr>HostList := [0], MACEntry_Online := True, IsRouter := True\<rparr>]"
  | (same_mac) "MAC (HostAddr4 nic) = MAC (RouterAddr4 nic)" "IP (HostAddr4 nic) \<noteq> IP (RouterAddr4 nic)"
      "HostTable s = [\<lparr>Host_Addr = \<lparr>MAC = MAC (HostAddr4 nic), IP = IP (HostAddr4 nic), Port = 0\<rparr>,
                Host_MACEntry = 0, Online = True, LastSeen = now + Hour * 24 * 365\<rparr>,
              \<lparr>Host_Addr = \<lparr>MAC = MAC (RouterAddr4 nic), IP = IP (RouterAddr4 nic), Port = 0\<rparr>,
                Host_MACEntry = 0, Online = True, LastSeen = stamp\<rparr>]"
      "MACTable s = [(newMACEntry (MAC (HostAddr4 nic)))
                       \<lparr>HostList := [0, 1], MACEntry_Online := True, IsRouter := True\<rparr>]"
  | (other) "MAC (HostAddr4 nic) \<noteq> MAC (RouterAddr4 nic)"
      "HostTable s = [\<lparr>Host_Addr = \<lparr>MAC = MAC (HostAddr4 nic), IP = IP (HostAddr4 nic), Port = 0\<rparr>,
                Host_MACEntry = 0, Online = True, LastSeen = now + Hour * 24 * 365\<rparr>,
              \<lparr>Host_Addr = \<lparr>MAC = MAC (RouterAddr4 nic), IP = IP (RouterAddr4 nic), Port = 0\<rparr>,
                Host_MACEntry = 1, Online = True, LastSeen = stamp\<rparr>]"
      "MACTable s = [(newMACEntry (MAC (HostAddr4 nic)))\<lparr>HostList := [0], MACEntry_Online := True\<rparr>,
                     (newMACEntry (MAC (RouterAddr4 nic)))
                       \<lparr>HostList := [1], MACEntry_Online := True, IsRouter := True\<rparr>]"
    by blast
  then show ?thesis
  proof cases
    case same
    have "\<forall>t. t \<le> now + Hour * 24 * 365 \<longrightarrow>
             Host_Addr (HostTable s ! 0) \<notin> set (fst (snd (purge_scan t s)))
             \<and> 0 \<notin> set (snd (snd (purge_scan t s)))"
      using same d by (simp add: purge_scan_def purge_entry_def Let_def)
    then show ?thesis
      using same p by (intro exI [of _ 0]) (simp add: newMACEntry_def)
  next
    case same_mac
    have "\<forall>t. t \<le> now + Hour * 24 * 365 \<longrightarrow>
             Host_Addr (HostTable s ! 0) \<notin> set (fst (snd (purge_scan t s)))
             \<and> 0 \<notin> set (snd (snd (purge_scan t s)))"
      using same_mac d by (simp add: purge_scan_def purge_entry_def Let_def)
    then show ?thesis
      using same_mac p by (intro exI [of _ 0] exI [of _ 1]) (simp add: newMACEntry_def)
  next
    case other
    have "\<forall>t. t \<le> now + Hour * 24 * 365 \<longrightarrow>
             Host_Addr (HostTable s ! 0) \<notin> set (fst (snd (purge_scan t s)))
             \<and> 0 \<notin> set (snd (snd (purge_scan t s)))"
      using other d by (simp add: purge_scan_def purge_entry_def Let_def)
    then show ?thesis
      using other p by (intro exI [of _ 0] exI [of _ 1]) (simp add: newMACEntry_def)
  qed
qed

text \<open>
  The theorem at the session started at time 1000 with the default deadlines and the test
  context's addresses: a pass at 1000 plus six minutes leaves the session as it is,
  deletes nothing and does not list the own-address record (index 0) for an offline
  notification.
\<close>

theorem C5_NewSession_entries_witness:
  "NewSession 1000 1000 config_default = Inr started_session
   \<and> findHost (HostTable started_session) hostAddr = Some 0
   \<and> session_after (purge started_session (1000 + Minute * 6)) = started_session
   \<and> deleted (purge started_session (1000 + Minute * 6)) = []
   \<and> 0 \<notin> set (snd (snd (purge_scan (1000 + Minute * 6) started_session)))"
proof -
  have a: "NewSession 1000 1000 config_default = Inr started_session"
    by code_simp
  have b: "Config_NICInfo config_default = Some testNICInfo"
    by (simp add: config_default_def)
  have c: "findHost (HostTable started_session) hostAddr = Some 0"
    by code_simp
  have t: "1000 + Minute * 6 \<le> 1000 + Hour * 24 * 365"
    by (simp add: Minute_def Hour_def Second_def)
  have h: "HostAddr4 testNICInfo = hostAddr"
    by (simp add: testNICInfo_def)
  from C5_NewSession_entries [OF a b] c t h
  have "session_after (purge started_session (1000 + Minute * 6)) = started_session
        \<and> deleted (purge started_session (1000 + Minute * 6)) = []
        \<and> 0 \<notin> set (snd (snd (purge_scan (1000 + Minute * 6) started_session)))"
    by auto
  with a c show ?thesis by simp
qed

text \<open>
  C5 as stated fails for the gateway: in the same session the router's record (index 1)
  has the \<open>LastSeen\<close> of its creation, not one year ahead.
\<close>

theorem C5_counterexample:
  "NewSession 1000 1000 config_default = Inr started_session
   \<and> findHost (HostTable started_session) routerAddr = Some 1
   \<and> LastSeen (HostTable started_session ! 1) = 1000
   \<and> LastSeen (HostTable started_session ! 1) \<noteq> 1000 + Hour * 24 * 365"
  by code_simp

section \<open>Capture\<close>

lemma findMAC_Some:
  "findMAC t mac = Some i \<Longrightarrow> i < length t \<and> MACEntry_MAC (t ! i) = mac"
  by (induction t arbitrary: i) (auto split: if_splits)

lemma findMAC_append_new:
  "findMAC t mac = None \<Longrightarrow> MACEntry_MAC e = mac \<Longrightarrow> findMAC (t @ [e]) mac = Some (length t)"
  by (induction t) (auto split: if_splits)

lemma findMAC_update:
  "MACEntry_MAC e = MACEntry_MAC (t ! i) \<Longrightarrow> i < length t
     \<Longrightarrow> findMAC (t[i := e]) mac = findMAC t mac"
proof (induction t arbitrary: i)
  case Nil
  then show ?case by simp
next
  case (Cons a t)
  then show ?case by (cases i) auto
qed

lemma Capture_cases:
  "Capture h mac =
     (case findMAC (MACTable h) mac of
        Some e \<Rightarrow>
          if Captured (MACTable h ! e) then (None, h)
          else if IsRouter (MACTable h ! e) then (Some ErrIsRouter, h)
          else (None, updMACEntry e (\<lambda>x. x\<lparr>Captured := True\<rparr>) h)
      | None \<Rightarrow>
          (None, h\<lparr>MACTable := MACTable h @ [(newMACEntry mac)\<lparr>Captured := True\<rparr>]\<rparr>))"
  by (auto simp: Capture_def MACTable_findOrCreate_def Let_def updMACEntry_def newMACEntry_def
      split: option.splits)

text \<open>
  C10. When the MAC's entry is already captured, \<open>Capture\<close> returns nil and the session
  it was given, whether or not the entry is a router. It returns \<open>ErrIsRouter\<close> exactly
  when the entry exists, is not captured and is a router. Whenever it returns nil, the
  MAC's entry is captured afterwards.
\<close>

theorem C10_Capture:
  "(\<forall>e. findMAC (MACTable h) mac = Some e \<and> Captured (MACTable h ! e)
        \<longrightarrow> Capture h mac = (None, h))
   \<and> (fst (Capture h mac) = Some ErrIsRouter
        \<longleftrightarrow> (\<exists>e. findMAC (MACTable h) mac = Some e \<and> \<not> Captured (MACTable h ! e)
                  \<and> IsRouter (MACTable h ! e)))
   \<and> (fst (Capture h mac) = None
        \<longrightarrow> (\<exists>e. findMAC (MACTable (snd (Capture h mac))) mac = Some e
                  \<and> Captured (MACTable (snd (Capture h mac)) ! e)))"
proof (intro conjI allI impI)
  fix e
  assume "findMAC (MACTable h) mac = Some e \<and> Captured (MACTable h ! e)"
  then show "Capture h mac = (None, h)"
    by (simp add: Capture_cases)
next
  show "fst (Capture h mac) = Some ErrIsRouter
        \<longleftrightarrow> (\<exists>e. findMAC (MACTable h) mac = Some e \<and> \<not> Captured (MACTable h ! e)
                  \<and> IsRouter (MACTable h ! e))"
    by (auto simp: Capture_cases split: option.splits if_splits)
next
  assume ok: "fst (Capture h mac) = None"
  show "\<exists>e. findMAC (MACTable (snd (Capture h mac))) mac = Some e
            \<and> Captured (MACTable (snd (Capture h mac)) ! e)"
  proof (cases "findMAC (MACTable h) mac")
    case None
    have "findMAC (MACTable h @ [(newMACEntry mac)\<lparr>Captured := True\<rparr>]) mac
            = Some (length (MACTable h))"
      using None by (simp add: findMAC_append_new newMACEntry_def)
    then show ?thesis
      using None by (simp add: Capture_cases)
  next
    case (Some e)
    then have e: "e < length (MACTable h)" "MACEntry_MAC (MACTable h ! e) = mac"
      using findMAC_Some by blast+
    show ?thesis
    proof (cases "Captured (MACTable h ! e)")
      case True
      then show ?thesis using Some by (simp add: Capture_cases)
    next
      case False
      then have nr: "\<not> IsRouter (MACTable h ! e)"
        using ok Some by (simp add: Capture_cases split: if_splits)
      have "findMAC ((MACTable h)[e := (MACTable h ! e)\<lparr>Captured := True\<rparr>]) mac = Some e"
        using findMAC_update [of "(MACTable h ! e)\<lparr>Captured := True\<rparr>" "MACTable h" e mac]
          e Some
        by simp
      then show ?thesis
        using Some False nr e by (simp add: Capture_cases updMACEntry_def)
    qed
  qed
qed

text \<open>
  The theorem at a session whose entry for the router's MAC is both a router and
  captured, and at the test session for \<open>mac1\<close>, which is not captured.
\<close>

theorem C10_Capture_witness:
  "findMAC (MACTable router_session) routerMAC = Some 0
   \<and> Captured (MACTable router_session ! 0) \<and> IsRouter (MACTable router_session ! 0)
   \<and> Capture router_session routerMAC = (None, router_session)
   \<and> fst (Capture test_session mac1) = None
   \<and> (\<exists>e. findMAC (MACTable (snd (Capture test_session mac1))) mac1 = Some e
           \<and> Captured (MACTable (snd (Capture test_session mac1)) ! e))"
proof -
  have a: "findMAC (MACTable router_session) routerMAC = Some 0
           \<and> Captured (MACTable router_session ! 0)"
    by code_simp
  have r: "IsRouter (MACTable router_session ! 0)"
    by code_simp
  have n: "fst (Capture test_session mac1) = None"
    by code_simp
  show ?thesis
    using a r n C10_Capture [of router_session routerMAC] C10_Capture [of test_session mac1]
    by blast
qed

section \<open>The transport of a DHCP reply\<close>

lemma ProcessPacket_sends:
  assumes "(srcAddr, dstAddr, frame) \<in> set (snd (snd (snd (ProcessPacket nic calls host b))))"
  shows "srcAddr = \<lparr>MAC = HostMAC nic, IP = IPNet_IP (HostIP4 nic), Port = 67\<rparr>
       \<and> dstAddr = (if IP_Equal (IP4_Src b) IPv4zero \<or> Broadcast (dhcpFrame b)
                    then \<lparr>MAC = EthBroadcast, IP = IPv4bcast, Port = 68\<rparr>
                    else \<lparr>MAC = Ether_Src b, IP = IP4_Src b, Port = 68\<rparr>)"
  using assms
  by (auto simp: ProcessPacket_def Let_def DHCP4ClientPort_def DHCP4ServerPort_def
      split: if_splits option.splits prod.splits)

text \<open>
  C6. For a valid DHCP frame to the server port whose message type is in range and whose
  handler returns a reply frame, \<open>ProcessPacket\<close> makes exactly one send, of that frame:
  from (host MAC, host IPv4) port 67, to ff:ff:ff:ff:ff:ff and 255.255.255.255 port 68
  when the sender IP is zero or the Broadcast flag is set, and to the sender's (MAC, IP)
  port 68 otherwise.
\<close>

theorem C6_reply_transport:
  assumes "IP4_IsValid b" and "UDP_IsValid b" and "240 \<le> UDP_Payload_len b"
    and "DHCP4_IsValid b" and "UDP_DstPort b \<noteq> DHCP4ClientPort"
    and "option_value (ParseOptions b) OptionDHCPMessageType = [reqType]"
    and "Discover \<le> reqType" and "reqType \<le> Inform"
    and "ProcessPacket_switch calls host reqType = (host1, result, Some frame)"
  shows "snd (snd (snd (ProcessPacket nic calls host b)))
         = [(\<lparr>MAC = HostMAC nic, IP = IPNet_IP (HostIP4 nic), Port = 67\<rparr>,
             (if IP_Equal (IP4_Src b) IPv4zero \<or> Broadcast (dhcpFrame b)
              then \<lparr>MAC = [0xff, 0xff, 0xff, 0xff, 0xff, 0xff], IP = IPv4 255 255 255 255,
                    Port = 68\<rparr>
              else \<lparr>MAC = Ether_Src b, IP = IP4_Src b, Port = 68\<rparr>),
             frame)]"
  using assms
  by (auto simp: ProcessPacket_def Let_def DHCP4ClientPort_def DHCP4ServerPort_def
      EthBroadcast_def IPv4bcast_def
      split: if_splits option.splits prod.splits)

text \<open>
  The theorem at a REQUEST from 0.0.0.0 that the handler answers with a NAK: the NAK goes
  to the broadcast addresses.
\<close>

theorem C6_reply_transport_witness:
  "snd (snd (snd (ProcessPacket testNICInfo4 nak_calls None request_packet)))
     = [(\<lparr>MAC = hostMAC, IP = hostIP4, Port = 67\<rparr>,
         \<lparr>MAC = [0xff, 0xff, 0xff, 0xff, 0xff, 0xff], IP = IPv4 255 255 255 255, Port = 68\<rparr>,
         ReplyPacket request_mac1 NAK hostIP4 IPv4zero 0 [])]"
proof -
  have v: "IP4_IsValid request_packet" "UDP_IsValid request_packet"
    "240 \<le> UDP_Payload_len request_packet" "DHCP4_IsValid request_packet"
    "UDP_DstPort request_packet \<noteq> DHCP4ClientPort"
    by (simp_all add: request_packet_def DHCP4ClientPort_def)
  have t: "option_value (ParseOptions request_packet) OptionDHCPMessageType = [Request]"
    by (simp add: request_packet_def option_value_def)
  have r: "Discover \<le> Request" "Request \<le> Inform"
    by (simp_all add: Discover_def Request_def Inform_def)
  have sw: "ProcessPacket_switch nak_calls None Request
              = (None, Result_zero, Some (ReplyPacket request_mac1 NAK hostIP4 IPv4zero 0 []))"
    by (simp add: ProcessPacket_switch_def nak_calls_def Request_def Discover_def)
  have z: "IP_Equal (IP4_Src request_packet) IPv4zero"
    by code_simp
  have n: "HostMAC testNICInfo4 = hostMAC" "IPNet_IP (HostIP4 testNICInfo4) = hostIP4"
    by (simp_all add: testNICInfo4_def)
  show ?thesis
    using C6_reply_transport [OF v t r sw, of testNICInfo4] z n by simp
qed

section \<open>The two ICMPv6 senders compared\<close>

text \<open>
  C8 (as amended). For a link-local unicast or multicast destination the sender of package
  icmp sets hop limit 255 and the sender of package icmp6 sets 1; for any other
  destination both set 64. The two frames differ in one more field: package icmp writes
  the session's \<open>HostMAC\<close> as the Ethernet source, package icmp6 the MAC of
  \<open>srcAddr\<close>. Every other field is the same, so the two frames are equal exactly when
  the destination is not link-local and \<open>srcAddr\<close>'s MAC is the host's. The address
  given to \<open>WriteTo\<close> is \<open>dstAddr\<close> in package icmp and an address with only
  \<open>dstAddr\<close>'s MAC in package icmp6.
\<close>

theorem C8_sendPacket_compared:
  "HopLimit (fst (Handler6_sendPacket Checksum nic srcAddr dstAddr b))
     = (if IsLinkLocalUnicast (IP dstAddr) \<or> IsLinkLocalMulticast (IP dstAddr) then 255 else 64)
   \<and> HopLimit (fst (ICMP6Handler_sendPacket Checksum srcAddr dstAddr b))
     = (if IsLinkLocalUnicast (IP dstAddr) \<or> IsLinkLocalMulticast (IP dstAddr) then 1 else 64)
   \<and> Ether_SrcMAC (fst (Handler6_sendPacket Checksum nic srcAddr dstAddr b)) = HostMAC nic
   \<and> Ether_SrcMAC (fst (ICMP6Handler_sendPacket Checksum srcAddr dstAddr b)) = MAC srcAddr
   \<and> fst (Handler6_sendPacket Checksum nic srcAddr dstAddr b)
     = (fst (ICMP6Handler_sendPacket Checksum srcAddr dstAddr b))
         \<lparr>Ether_SrcMAC := HostMAC nic,
          HopLimit := HopLimit (fst (Handler6_sendPacket Checksum nic srcAddr dstAddr b))\<rparr>
   \<and> (fst (Handler6_sendPacket Checksum nic srcAddr dstAddr b)
         = fst (ICMP6Handler_sendPacket Checksum srcAddr dstAddr b)
       \<longleftrightarrow> \<not> IsLinkLocalUnicast (IP dstAddr) \<and> \<not> IsLinkLocalMulticast (IP dstAddr)
            \<and> MAC srcAddr = HostMAC nic)
   \<and> snd (Handler6_sendPacket Checksum nic srcAddr dstAddr b) = dstAddr
   \<and> snd (ICMP6Handler_sendPacket Checksum srcAddr dstAddr b)
     = \<lparr>MAC = MAC dstAddr, IP = [], Port = 0\<rparr>"
  by (auto simp: Handler6_sendPacket_def ICMP6Handler_sendPacket_def Let_def)

text \<open>
  The theorem at an echo request from the host's own MAC to the global address
  \<open>2001::1\<close>: the two frames are equal, and the Ethernet source of package icmp6's
  frame is the host's MAC.
\<close>

theorem C8_sendPacket_compared_witness:
  "fst (Handler6_sendPacket zero_checksum testNICInfo4
          \<lparr>MAC = hostMAC, IP = ip6LLAHost, Port = 0\<rparr> \<lparr>MAC = mac2, IP = ip6_global, Port = 0\<rparr>
          [128, 0, 0, 0])
     = fst (ICMP6Handler_sendPacket zero_checksum
          \<lparr>MAC = hostMAC, IP = ip6LLAHost, Port = 0\<rparr> \<lparr>MAC = mac2, IP = ip6_global, Port = 0\<rparr>
          [128, 0, 0, 0])
   \<and> Ether_SrcMAC (fst (ICMP6Handler_sendPacket zero_checksum
          \<lparr>MAC = hostMAC, IP = ip6LLAHost, Port = 0\<rparr> \<lparr>MAC = mac2, IP = ip6_global, Port = 0\<rparr>
          [128, 0, 0, 0])) = hostMAC"
proof -
  have a: "\<not> IsLinkLocalUnicast ip6_global" "\<not> IsLinkLocalMulticast ip6_global"
    by code_simp+
  have m: "HostMAC testNICInfo4 = hostMAC"
    by (simp add: testNICInfo4_def)
  show ?thesis
    using C8_sendPacket_compared [of zero_checksum testNICInfo4
        "\<lparr>MAC = hostMAC, IP = ip6LLAHost, Port = 0\<rparr>" "\<lparr>MAC = mac2, IP = ip6_global, Port = 0\<rparr>"
        "[128, 0, 0, 0]"] a m
    by simp
qed

text \<open>
  C8 as stated fails: to the same global destination, from \<open>mac1\<close>, the two frames
  differ although the destination is not link-local.
\<close>

theorem C8_counterexample:
  "\<not> IsLinkLocalUnicast ip6_global \<and> \<not> IsLinkLocalMulticast ip6_global
   \<and> HopLimit (fst (Handler6_sendPacket zero_checksum testNICInfo4
          \<lparr>MAC = mac1, IP = ip6LLA2, Port = 0\<rparr> \<lparr>MAC = mac2, IP = ip6_global, Port = 0\<rparr>
          [128, 0, 0, 0])) = 64
   \<and> HopLimit (fst (ICMP6Handler_sendPacket zero_checksum
          \<lparr>MAC = mac1, IP = ip6LLA2, Port = 0\<rparr> \<lparr>MAC = mac2, IP = ip6_global, Port = 0\<rparr>
          [128, 0, 0, 0])) = 64
   \<and> fst (Handler6_sendPacket zero_checksum testNICInfo4
          \<lparr>MAC = mac1, IP = ip6LLA2, Port = 0\<rparr> \<lparr>MAC = mac2, IP = ip6_global, Port = 0\<rparr>
          [128, 0, 0, 0])
     \<noteq> fst (ICMP6Handler_sendPacket zero_checksum
          \<lparr>MAC = mac1, IP = ip6LLA2, Port = 0\<rparr> \<lparr>MAC = mac2, IP = ip6_global, Port = 0\<rparr>
          [128, 0, 0, 0])"
proof -
  have a: "\<not> IsLinkLocalUnicast ip6_global" "\<not> IsLinkLocalMulticast ip6_global"
    by code_simp+
  have m: "hostMAC \<noteq> mac1"
    by (simp add: hostMAC_def mac1_def)
  show ?thesis
    using a m
    by (simp add: Handler6_sendPacket_def ICMP6Handler_sendPacket_def Let_def testNICInfo4_def)
qed

end
